theory Spec2Isabelle
  imports Complex_Main
begin

section \<open>JavaScript strings\<close>

text \<open>
  A JavaScript string is a sequence of UTF-16 code units, and \<open>length\<close>, \<open>trim\<close>,
  \<open>substring\<close> and the regular expressions of the sources all work on code units.
  A code unit is modelled as a natural number (below 65536 in a real string; no definition
  depends on the bound), so \<open>length\<close> counts what \<open>s.length\<close> counts. \<open>js\<close> writes
  an ASCII literal of the sources as such a string.
\<close>

type_synonym jstring = "nat list"

definition js :: "string \<Rightarrow> jstring" where
  "js s = map of_char s"

text \<open>ECMAScript WhiteSpace and LineTerminator code points: what \<open>trim()\<close> strips and
  what \<open>\s\<close> matches.\<close>

definition isWhiteSpace :: "nat \<Rightarrow> bool" where
  "isWhiteSpace c \<longleftrightarrow>
     c = 9 \<or> c = 10 \<or> c = 11 \<or> c = 12 \<or> c = 13 \<or> c = 32 \<or> c = 160 \<or> c = 5760 \<or>
     (8192 \<le> c \<and> c \<le> 8202) \<or> c = 8232 \<or> c = 8233 \<or> c = 8239 \<or> c = 8287 \<or>
     c = 12288 \<or> c = 65279"

text \<open>\<open>\w\<close>: the class \<open>[A-Za-z0-9_]\<close>.\<close>

definition isWordChar :: "nat \<Rightarrow> bool" where
  "isWordChar c \<longleftrightarrow>
     (48 \<le> c \<and> c \<le> 57) \<or> (65 \<le> c \<and> c \<le> 90) \<or> c = 95 \<or> (97 \<le> c \<and> c \<le> 122)"

definition trim :: "jstring \<Rightarrow> jstring" where
  "trim s = rev (dropWhile isWhiteSpace (rev (dropWhile isWhiteSpace s)))"

text \<open>
  Case folding of the flag \<open>i\<close> (without \<open>u\<close>): a code unit is compared after upper-casing.
  Every literal of the patterns below is ASCII, and ECMAScript never folds a non-ASCII
  code unit onto an ASCII one, so folding the ASCII letters alone decides every comparison
  against such a literal.
\<close>

definition canonicalize :: "nat \<Rightarrow> nat" where
  "canonicalize c = (if 97 \<le> c \<and> c \<le> 122 then c - 32 else c)"

text \<open>\<open>s.includes(t)\<close> and \<open>s.startsWith(t)\<close>.\<close>

fun startsWith :: "jstring \<Rightarrow> jstring \<Rightarrow> bool" where
  "startsWith s [] = True"
| "startsWith [] (p # ps) = False"
| "startsWith (c # cs) (p # ps) = (c = p \<and> startsWith cs ps)"

fun includes_str :: "jstring \<Rightarrow> jstring \<Rightarrow> bool" where
  "includes_str [] t = (t = [])"
| "includes_str (c # cs) t = (startsWith (c # cs) t \<or> includes_str cs t)"

section \<open>Regular expressions, as far as the sources use them\<close>

text \<open>
  The patterns of \<open>detectXSSPatterns\<close> and \<open>hasExcessiveWhitespace\<close> are built from
  single-character classes, concatenation, the greedy star, one negative lookahead and the
  word boundary. \<open>RegExp.prototype.test\<close> only asks whether some match exists, so the
  matcher returns every state a pattern can reach: a backtracking matcher finds a match
  exactly when one exists.

  A matcher state is the pair of "the previous code unit is a word character" (for
  \<open>\b\<close>) and the rest of the input.
\<close>

datatype cset =
    Lit nat        \<comment> \<open>a literal character, under the flag \<open>i\<close>\<close>
  | NotLit nat     \<comment> \<open>\<open>[^c]\<close>\<close>
  | WordChar       \<comment> \<open>\<open>\w\<close>\<close>
  | Space          \<comment> \<open>\<open>\s\<close>\<close>

datatype rx =
    Empty
  | Atom cset
  | Cat rx rx
  | Star rx
  | NotAhead rx    \<comment> \<open>\<open>(?!r)\<close>\<close>
  | Boundary       \<comment> \<open>\<open>\b\<close>\<close>

type_synonym mstate = "bool \<times> jstring"

primrec in_cset :: "cset \<Rightarrow> nat \<Rightarrow> bool" where
  "in_cset (Lit l) c = (canonicalize c = canonicalize l)"
| "in_cset (NotLit l) c = (canonicalize c \<noteq> canonicalize l)"
| "in_cset WordChar c = isWordChar c"
| "in_cset Space c = isWhiteSpace c"

text \<open>
  The star: zero or more rounds of \<open>f\<close>. ECMAScript rejects a round that consumes
  nothing, so every round shortens the rest and the length of the rest bounds the number
  of rounds; the first argument counts them down.
\<close>

fun star_from :: "nat \<Rightarrow> (mstate \<Rightarrow> mstate list) \<Rightarrow> mstate \<Rightarrow> mstate list" where
  "star_from 0 f st = [st]"
| "star_from (Suc n) f st =
     st # concat (map (star_from n f)
                      (filter (\<lambda>st'. length (snd st') < length (snd st)) (f st)))"

primrec rmatch :: "rx \<Rightarrow> mstate \<Rightarrow> mstate list" where
  "rmatch Empty = (\<lambda>st. [st])"
| "rmatch (Atom a) = (\<lambda>st. case snd st of
       [] \<Rightarrow> []
     | c # cs \<Rightarrow> if in_cset a c then [(isWordChar c, cs)] else [])"
| "rmatch (Cat r1 r2) = (\<lambda>st. concat (map (rmatch r2) (rmatch r1 st)))"
| "rmatch (Star r) = (\<lambda>st. star_from (length (snd st)) (rmatch r) st)"
| "rmatch (NotAhead r) = (\<lambda>st. if rmatch r st = [] then [st] else [])"
| "rmatch Boundary = (\<lambda>st.
     if fst st \<noteq> (case snd st of [] \<Rightarrow> False | c # cs \<Rightarrow> isWordChar c) then [st] else [])"

text \<open>\<open>search r prev s\<close>: the pattern matches at some position of \<open>s\<close>, the code unit
  before \<open>s\<close> being a word character or not according to \<open>prev\<close>.\<close>

fun search :: "rx \<Rightarrow> bool \<Rightarrow> jstring \<Rightarrow> bool" where
  "search r prev [] = (rmatch r (prev, []) \<noteq> [])"
| "search r prev (c # cs) = (rmatch r (prev, c # cs) \<noteq> [] \<or> search r (isWordChar c) cs)"

text \<open>\<open>pattern.test(s)\<close> on a fresh pattern (\<open>lastIndex = 0\<close>).\<close>

definition regex_test :: "rx \<Rightarrow> jstring \<Rightarrow> bool" where
  "regex_test r s = search r False s"

text \<open>A run of literal characters, and \<open>r+\<close>.\<close>

definition lits :: "string \<Rightarrow> rx" where
  "lits s = foldr (\<lambda>c r. Cat (Atom (Lit (of_char c))) r) s Empty"

definition Plus :: "rx \<Rightarrow> rx" where
  "Plus r = Cat r (Star r)"

section \<open>Content sanitization (utils/sanitization)\<close>

text \<open>
  The ten patterns of \<open>detectXSSPatterns\<close>, in the order of the source:
  \<^verbatim>\<open>/<script\b[^<]*(?:(?!<\/script>)<[^<]*)*<\/script>/gi\<close>, \<^verbatim>\<open>/javascript:/gi\<close>,
  \<^verbatim>\<open>/on\w+\s*=/gi\<close>, \<^verbatim>\<open>/<iframe\b/gi\<close>, \<^verbatim>\<open>/<object\b/gi\<close>, \<^verbatim>\<open>/<embed\b/gi\<close>,
  \<^verbatim>\<open>/<form\b/gi\<close>, \<^verbatim>\<open>/expression\s*\(/gi\<close>, \<^verbatim>\<open>/url\s*\(/gi\<close>, \<^verbatim>\<open>/import\s*\(/gi\<close>.
\<close>

definition xssPatterns :: "rx list" where
  "xssPatterns =
    [ Cat (lits ''<script'') (Cat Boundary (Cat (Star (Atom (NotLit 60)))
        (Cat (Star (Cat (NotAhead (lits ''</script>''))
                        (Cat (Atom (Lit 60)) (Star (Atom (NotLit 60))))))
             (lits ''</script>'')))),
      lits ''javascript:'',
      Cat (lits ''on'') (Cat (Plus (Atom WordChar)) (Cat (Star (Atom Space)) (Atom (Lit 61)))),
      Cat (lits ''<iframe'') Boundary,
      Cat (lits ''<object'') Boundary,
      Cat (lits ''<embed'') Boundary,
      Cat (lits ''<form'') Boundary,
      Cat (lits ''expression'') (Cat (Star (Atom Space)) (Atom (Lit 40))),
      Cat (lits ''url'') (Cat (Star (Atom Space)) (Atom (Lit 40))),
      Cat (lits ''import'') (Cat (Star (Atom Space)) (Atom (Lit 40))) ]"

text \<open>The patterns are created by each call, so every \<open>test\<close> starts at index 0.
  \<open>!content\<close> holds of the empty string.\<close>

definition detectXSSPatterns :: "jstring \<Rightarrow> bool" where
  "detectXSSPatterns content =
     (if content = [] then False else list_ex (\<lambda>pattern. regex_test pattern content) xssPatterns)"

text \<open>\<open>s.replace(/lit/gi, '')\<close> for a literal: every match, found from left to right, is
  dropped; the scan goes on after the match and never looks at its own output again.\<close>

fun ci_prefix :: "jstring \<Rightarrow> jstring \<Rightarrow> bool" where
  "ci_prefix [] s = True"
| "ci_prefix (p # ps) [] = False"
| "ci_prefix (p # ps) (c # cs) = (canonicalize c = canonicalize p \<and> ci_prefix ps cs)"

function remove_ci :: "jstring \<Rightarrow> jstring \<Rightarrow> jstring" where
  "remove_ci pat [] = []"
| "remove_ci pat (c # cs) =
     (if pat \<noteq> [] \<and> ci_prefix pat (c # cs) then remove_ci pat (drop (length pat) (c # cs))
      else c # remove_ci pat cs)"
  by pat_completeness auto
termination
  by (relation "measure (\<lambda>(pat, s). length s)") (auto simp: less_Suc_eq_le neq_Nil_conv)

text \<open>\<open>/[\u0000-\u001F\u007F-\u009F]/\<close>.\<close>

definition isControl :: "nat \<Rightarrow> bool" where
  "isControl c \<longleftrightarrow> c \<le> 31 \<or> (127 \<le> c \<and> c \<le> 159)"

text \<open>
  \<open>sanitizeUserInput\<close>. \<open>DOMPurify.sanitize\<close> is a library outside the repository; the
  call with \<open>ALLOWED_TAGS: ['p', 'br']\<close> and \<open>ALLOWED_ATTR: []\<close> is the parameter
  \<open>purify\<close>.
\<close>

definition sanitizeUserInput :: "(jstring \<Rightarrow> jstring) \<Rightarrow> jstring \<Rightarrow> jstring" where
  "sanitizeUserInput purify input =
     (if input = [] then []
      else purify
        (remove_ci (js ''vbscript:'')
          (remove_ci (js ''data:'')
            (remove_ci (js ''javascript:'')
              (filter (\<lambda>c. \<not> isControl c) (trim input))))))"

text \<open>
  What DOMPurify does to text that holds no \<open><\<close>: it returns the text as it is (there
  is no markup to parse). \<open>purify_text\<close> stands for the library at such inputs, the only
  ones it is applied to below; on any other input it returns the empty string.
\<close>

definition purify_text :: "jstring \<Rightarrow> jstring" where
  "purify_text s = (if 60 \<in> set s then [] else s)"

section \<open>Floating point\<close>

text \<open>
  JavaScript numbers are doubles. \<open>to_double q\<close> is the double nearest to a rational
  \<open>q\<close> with \<open>1 \<le> q\<close> (below the overflow threshold): 53 significant bits, ties to the
  even significand. It is what the division of two integers below \<open>2^53\<close> returns, and
  the product of two doubles.
\<close>

fun floor_log2 :: "nat \<Rightarrow> nat" where
  "floor_log2 n = (if n < 2 then 0 else Suc (floor_log2 (n div 2)))"

declare floor_log2.simps [simp del]

definition round_half_even :: "rat \<Rightarrow> int" where
  "round_half_even x =
     (let r = \<lfloor>x\<rfloor>
      in if x - of_int r < 1 / 2 then r
         else if x - of_int r > 1 / 2 then r + 1
         else if even r then r else r + 1)"

definition to_double :: "rat \<Rightarrow> rat" where
  "to_double q =
     (let e = floor_log2 (nat \<lfloor>q\<rfloor>)
      in of_int (round_half_even (q * 2 ^ 52 / 2 ^ e)) * 2 ^ e / 2 ^ 52)"

text \<open>\<open>Math.floor(n * c)\<close> for a natural number \<open>n\<close> that is a double and a double
  \<open>c\<close> with \<open>1/2 \<le> c < 1\<close>: the product is below 1 for \<open>n < 2\<close> and at least 1
  otherwise.\<close>

definition floor_times :: "nat \<Rightarrow> rat \<Rightarrow> nat" where
  "floor_times n c = (if n < 2 then 0 else nat \<lfloor>to_double (of_nat n * c)\<rfloor>)"

section \<open>Input validation (services/InputValidator)\<close>

datatype validation_error =
    NotAString          \<comment> \<open>'Input must be a valid string'\<close>
  | EmptyMessage        \<comment> \<open>'Message cannot be empty'\<close>
  | ExceedsMaximum nat  \<comment> \<open>'Message exceeds maximum length of N characters'\<close>
  | UnsafeContent       \<comment> \<open>'Message contains potentially unsafe content'\<close>

datatype validation_warning =
    ApproachingLimit nat nat    \<comment> \<open>'Approaching character limit (n/N)'\<close>
  | LimitWarning nat nat        \<comment> \<open>'Character limit warning (n/N)'\<close>
  | ExcessiveWhitespace         \<comment> \<open>'Message contains excessive whitespace'\<close>
  | VeryLongLines               \<comment> \<open>'Message contains very long lines ...'\<close>

record ValidationResult =
  isValid :: bool
  errors :: "validation_error list"
  warnings :: "validation_warning list"
  characterCount :: nat
  canSend :: bool

text \<open>The validator object: \<open>maxLength\<close> and the two thresholds
  \<open>Math.floor(maxLength * 0.875)\<close> and \<open>Math.floor(maxLength * 0.95)\<close>. The literal
  \<open>0.875\<close> is the double \<open>7/8\<close>; the literal \<open>0.95\<close> is the double
  \<open>4278419646001971 / 2^52\<close>. The thresholds decide warnings only.\<close>

record InputValidator =
  maxLength :: nat
  warningThreshold :: nat
  criticalThreshold :: nat

definition new_InputValidator :: "nat \<Rightarrow> InputValidator" where
  "new_InputValidator n =
     \<lparr> maxLength = n,
       warningThreshold = floor_times n (7 / 8),
       criticalThreshold = floor_times n (4278419646001971 / 4503599627370496) \<rparr>"

definition isEmpty :: "jstring \<Rightarrow> bool" where
  "isEmpty input \<longleftrightarrow> input = [] \<or> length (trim input) = 0"

text \<open>\<open>input.split('\n')\<close> and \<open>lines.join('\n')\<close>.\<close>

fun split_lines :: "jstring \<Rightarrow> jstring list" where
  "split_lines [] = [[]]"
| "split_lines (c # cs) =
     (if c = 10 then [] # split_lines cs
      else (case split_lines cs of [] \<Rightarrow> [[c]] | l # ls \<Rightarrow> (c # l) # ls))"

fun join_lines :: "jstring list \<Rightarrow> jstring" where
  "join_lines [] = []"
| "join_lines [l] = l"
| "join_lines (l # ls) = l @ 10 # join_lines ls"

text \<open>\<open>/\s{4,}/\<close> and \<open>/\n{3,}/\<close>, then the share of white space: more than 30 percent
  (\<open>whitespaceCount / input.length > 0.3\<close>, as a comparison of integers).\<close>

definition hasExcessiveWhitespace :: "jstring \<Rightarrow> bool" where
  "hasExcessiveWhitespace input =
     (if regex_test (Cat (Atom Space) (Cat (Atom Space) (Cat (Atom Space)
                      (Cat (Atom Space) (Star (Atom Space)))))) input then True
      else if regex_test (Cat (Atom (Lit 10)) (Cat (Atom (Lit 10))
                      (Cat (Atom (Lit 10)) (Star (Atom (Lit 10)))))) input then True
      else 10 * length (filter isWhiteSpace input) > 3 * length input)"

definition hasVeryLongLines :: "jstring \<Rightarrow> bool" where
  "hasVeryLongLines input = list_ex (\<lambda>line. length line > 200) (split_lines input)"

definition validate :: "InputValidator \<Rightarrow> jstring \<Rightarrow> ValidationResult" where
  "validate v input =
     (if input = [] then
        \<lparr> isValid = False, errors = [NotAString], warnings = [], characterCount = 0,
          canSend = False \<rparr>
      else
        let characterCount = length input;
            errors1 = (if isEmpty input then [EmptyMessage] else []);
            errors2 = (if characterCount > maxLength v
                       then errors1 @ [ExceedsMaximum (maxLength v)] else errors1);
            warnings1 =
              (if characterCount > maxLength v then []
               else if characterCount \<ge> criticalThreshold v
                 then [ApproachingLimit characterCount (maxLength v)]
               else if characterCount \<ge> warningThreshold v
                 then [LimitWarning characterCount (maxLength v)]
               else []);
            errors3 = (if detectXSSPatterns input then errors2 @ [UnsafeContent] else errors2);
            warnings2 = (if hasExcessiveWhitespace input
                         then warnings1 @ [ExcessiveWhitespace] else warnings1);
            warnings3 = (if hasVeryLongLines input
                         then warnings2 @ [VeryLongLines] else warnings2);
            isValid = (length errors3 = 0);
            canSend = (isValid \<and> \<not> isEmpty input)
        in \<lparr> isValid = isValid, errors = errors3, warnings = warnings3,
             characterCount = characterCount, canSend = canSend \<rparr>)"

text \<open>\<open>normalizeWhitespace\<close>: \<open>replace(/[ \t]+/g, ' ')\<close>, \<open>replace(/\n{3,}/g, '\n\n')\<close>,
  every line trimmed, the whole trimmed.\<close>

definition isBlank :: "nat \<Rightarrow> bool" where
  "isBlank c \<longleftrightarrow> c = 32 \<or> c = 9"

function collapse_blanks :: "jstring \<Rightarrow> jstring" where
  "collapse_blanks [] = []"
| "collapse_blanks (c # cs) =
     (if isBlank c then 32 # collapse_blanks (dropWhile isBlank cs)
      else c # collapse_blanks cs)"
  by pat_completeness auto
termination
  by (relation "measure length") (auto simp: length_dropWhile_le less_Suc_eq_le)

function cap_newlines :: "jstring \<Rightarrow> jstring" where
  "cap_newlines [] = []"
| "cap_newlines (c # cs) =
     (if c = 10 then
        (if length (takeWhile (\<lambda>d. d = 10) cs) \<ge> 2
         then [10, 10] @ cap_newlines (dropWhile (\<lambda>d. d = 10) cs)
         else 10 # takeWhile (\<lambda>d. d = 10) cs @ cap_newlines (dropWhile (\<lambda>d. d = 10) cs))
      else c # cap_newlines cs)"
  by pat_completeness auto
termination
  by (relation "measure length") (auto simp: length_dropWhile_le less_Suc_eq_le)

definition normalizeWhitespace :: "jstring \<Rightarrow> jstring" where
  "normalizeWhitespace input =
     trim (join_lines (map trim (split_lines (cap_newlines (collapse_blanks input)))))"

text \<open>\<open>prepareInput\<close>; \<open>substring(0, maxLength)\<close> is \<open>take\<close>.\<close>

definition prepareInput :: "(jstring \<Rightarrow> jstring) \<Rightarrow> InputValidator \<Rightarrow> jstring \<Rightarrow> jstring" where
  "prepareInput purify v input =
     (if input = [] then []
      else
        let prepared = normalizeWhitespace (sanitizeUserInput purify input)
        in if length prepared > maxLength v then trim (take (maxLength v) prepared)
           else prepared)"

section \<open>JavaScript values\<close>

text \<open>
  The values that \<open>JSON.parse\<close> returns and \<open>JSON.stringify\<close> writes. An object is the
  list of its own properties in insertion order. \<open>undefined\<close> is not a JSON value: the
  result of reading a property is a \<open>json option\<close>, \<open>None\<close> being \<open>undefined\<close>.
  Numbers are rationals: the sources compare them, add lengths (sums of natural numbers
  are exact up to \<open>2^53\<close>) and take one average.
\<close>

datatype json =
    JNull
  | JBool bool
  | JNum rat
  | JStr jstring
  | JArr "json list"
  | JObj "(jstring \<times> json) list"

text \<open>\<open>v.k\<close> for a value \<open>v\<close> other than \<open>null\<close> (on \<open>null\<close> the read throws, which
  each caller handles) and a key \<open>k\<close> that no prototype has: only an object answers. The
  one key read that arrays and strings have, \<open>length\<close>, is read by \<open>get_length\<close>.\<close>

fun get_prop :: "json \<Rightarrow> jstring \<Rightarrow> json option" where
  "get_prop (JObj kvs) k = map_of kvs k"
| "get_prop v k = None"

fun truthy :: "json option \<Rightarrow> bool" where
  "truthy None = False"
| "truthy (Some JNull) = False"
| "truthy (Some (JBool b)) = b"
| "truthy (Some (JNum n)) = (n \<noteq> 0)"
| "truthy (Some (JStr s)) = (s \<noteq> [])"
| "truthy (Some (JArr xs)) = True"
| "truthy (Some (JObj kvs)) = True"

fun typeof :: "json option \<Rightarrow> jstring" where
  "typeof None = js ''undefined''"
| "typeof (Some JNull) = js ''object''"
| "typeof (Some (JBool b)) = js ''boolean''"
| "typeof (Some (JNum n)) = js ''number''"
| "typeof (Some (JStr s)) = js ''string''"
| "typeof (Some (JArr xs)) = js ''object''"
| "typeof (Some (JObj kvs)) = js ''object''"

text \<open>\<open>n.toString()\<close> for a non-negative integer.\<close>

function decimal :: "nat \<Rightarrow> jstring" where
  "decimal n = (if n < 10 then [48 + n] else decimal (n div 10) @ [48 + n mod 10])"
  by pat_completeness auto
termination
  by (relation "measure (\<lambda>n. n)") auto

declare decimal.simps [simp del]

text \<open>\<open>v.length\<close> for a value \<open>v\<close> other than \<open>null\<close>: the number of code units of a
  string, the number of elements of an array, the own property of an object.\<close>

fun get_length :: "json \<Rightarrow> json option" where
  "get_length (JStr s) = Some (JNum (of_nat (length s)))"
| "get_length (JArr xs) = Some (JNum (of_nat (length xs)))"
| "get_length (JObj kvs) = map_of kvs (js ''length'')"
| "get_length v = None"

text \<open>
  What the engine supplies to the conversions and sums below: the text of a number
  (\<open>Number.prototype.toString\<close>), the message of the \<open>TypeError\<close> it throws for a
  value that cannot be converted to a primitive, and the sum
  \<open>xs.reduce((sum, x) => sum + x, 0)\<close> of values that are not all natural numbers
  (floating-point addition, concatenation once a string is met), as \<open>JSON.stringify\<close>
  writes it; \<open>None\<close>: a conversion throws.
\<close>

record engine =
  number_text :: "rat \<Rightarrow> jstring"
  conversion_error :: jstring
  reduce_plus :: "json list \<Rightarrow> json option"

text \<open>
  \<open>ToString\<close>, the conversion that \<open>new Error(v)\<close> applies to its argument;
  \<open>None\<close>: it throws a \<open>TypeError\<close>. An array is joined with commas, \<open>null\<close>
  elements giving the empty string. An object parsed from JSON has no callable
  property of its own: with a key \<open>toString\<close> it hides
  \<open>Object.prototype.toString\<close>, \<open>valueOf\<close> gives no primitive either, and the
  conversion throws; without one it is \<open>[object Object]\<close>.
\<close>

fun join_commas :: "jstring list \<Rightarrow> jstring" where
  "join_commas [] = []"
| "join_commas [s] = s"
| "join_commas (s # ss) = s @ 44 # join_commas ss"

fun ToString :: "engine \<Rightarrow> json \<Rightarrow> jstring option" where
  "ToString eng JNull = Some (js ''null'')"
| "ToString eng (JBool b) = Some (if b then js ''true'' else js ''false'')"
| "ToString eng (JNum n) = Some (number_text eng n)"
| "ToString eng (JStr s) = Some s"
| "ToString eng (JArr xs) =
     map_option join_commas
       (those (map (\<lambda>x. if x = JNull then Some [] else ToString eng x) xs))"
| "ToString eng (JObj kvs) =
     (if js ''toString'' \<in> fst ` set kvs then None else Some (js ''[object Object]''))"

section \<open>Thrown values\<close>

text \<open>
  An error object: its class (for \<open>instanceof\<close>), \<open>name\<close>, \<open>message\<close> and the
  \<open>status\<close> that \<open>makeRequest\<close> attaches to the error of an HTTP failure (\<open>None\<close>: the
  object has no such property). \<open>makeRequest\<close> also copies the \<open>code\<close> of the server's
  error body onto the object; nothing reads it, and it is left out.
\<close>

datatype err_class = Error | TypeError | DOMException | SyntaxError

record js_error =
  err_class :: err_class
  err_name :: jstring
  err_message :: jstring
  err_status :: "nat option"

definition new_Error :: "jstring \<Rightarrow> js_error" where
  "new_Error m = \<lparr> err_class = Error, err_name = js ''Error'', err_message = m, err_status = None \<rparr>"

text \<open>What a \<open>catch\<close> receives: an \<open>Error\<close> instance or any other value.\<close>

datatype thrown = ErrorObj js_error | NotAnError

section \<open>Error handling (services/ErrorHandler)\<close>

datatype ErrorType = Network | Timeout | Server | Validation | Storage

text \<open>\<open>ErrorState\<close>; \<open>originalRequest\<close> is always \<open>undefined\<close> and is left out.
  Timestamps are \<open>Date.now()\<close>, integers.\<close>

record ErrorState =
  es_type :: ErrorType
  es_message :: jstring
  es_code :: "jstring option"
  es_timestamp :: int
  es_retryable :: bool

text \<open>\<open>createErrorState\<close>. \<open>now\<close> is the value of \<open>Date.now()\<close>; here and below, the
  calls of \<open>Date.now()\<close> within one synchronous run of a method are taken to return the
  same value. The branches are the source's, in its order; the last one is
  \<open>'status' in error\<close>.\<close>

definition createErrorState :: "int \<Rightarrow> thrown \<Rightarrow> ErrorState" where
  "createErrorState now error =
    (case error of
       NotAnError \<Rightarrow>
         \<lparr> es_type = Network,
           es_message = js ''Une erreur inattendue s'' @ [39] @ js ''est produite'',
           es_code = None, es_timestamp = now, es_retryable = True \<rparr>
     | ErrorObj e \<Rightarrow>
         let m = err_message e in
         if err_name e = js ''AbortError'' then
           \<lparr> es_type = Network,
             es_message = js ''Requ'' @ [234] @ js ''te annul'' @ [233] @ js ''e'',
             es_code = None, es_timestamp = now, es_retryable = False \<rparr>
         else if includes_str m (js ''timeout'') \<or> includes_str m (js ''Request timeout'') then
           \<lparr> es_type = Timeout, es_message = js ''La demande a pris trop de temps'',
             es_code = None, es_timestamp = now, es_retryable = True \<rparr>
         else if includes_str m (js ''Network error'') \<or> includes_str m (js ''fetch'') then
           \<lparr> es_type = Network,
             es_message = js ''Probl'' @ [232] @ js ''me de connexion r'' @ [233] @ js ''seau'',
             es_code = None, es_timestamp = now, es_retryable = True \<rparr>
         else if includes_str m (js ''validation'') \<or> includes_str m (js ''invalid'') then
           \<lparr> es_type = Validation, es_message = js ''Donn'' @ [233] @ js ''es invalides'',
             es_code = None, es_timestamp = now, es_retryable = False \<rparr>
         else if includes_str m (js ''storage'') \<or> includes_str m (js ''localStorage'') then
           \<lparr> es_type = Storage, es_message = js ''Erreur de stockage local'',
             es_code = None, es_timestamp = now, es_retryable = False \<rparr>
         else
           (case err_status e of
              None \<Rightarrow>
                \<lparr> es_type = Network, es_message = m, es_code = None, es_timestamp = now,
                  es_retryable = True \<rparr>
            | Some status \<Rightarrow>
                \<lparr> es_type = Server,
                  es_message =
                    (if 400 \<le> status \<and> status < 500 then
                       (if status = 401 then js ''Authentification requise''
                        else if status = 403 then js ''Acc'' @ [232] @ js ''s non autoris'' @ [233]
                        else if status = 404 then js ''Service non trouv'' @ [233]
                        else if status = 429 then js ''Trop de demandes, veuillez patienter''
                        else js ''Erreur de requ'' @ [234] @ js ''te'')
                     else if status \<ge> 500 then js ''Erreur du serveur EME''
                     else m),
                  es_code = Some (decimal status),
                  es_timestamp = now,
                  es_retryable =
                    (if 400 \<le> status \<and> status < 500 then status = 429 else True) \<rparr>))"

definition getUserFriendlyMessage :: "ErrorState \<Rightarrow> jstring" where
  "getUserFriendlyMessage errorState =
    (let message =
       (case es_type errorState of
          Network \<Rightarrow>
            js ''Probl'' @ [232] @ js ''me de connexion. V'' @ [233] @ js ''rifiez votre r'' @ [233]
              @ js ''seau et r'' @ [233] @ js ''essayez.''
              @ [10, 10, 55357, 56481] @ js '' V'' @ [233]
              @ js ''rifiez votre connexion internet et r'' @ [233] @ js ''essayez.''
        | Timeout \<Rightarrow>
            js ''La demande a pris trop de temps. Veuillez r'' @ [233] @ js ''essayer.''
              @ [10, 10, 55357, 56481] @ js '' Le service EME met plus de temps que d'' @ [39]
              @ js ''habitude '' @ [224] @ js '' r'' @ [233] @ js ''pondre.''
        | Server \<Rightarrow>
            (if es_code errorState = Some (js ''429'') then
               js ''Trop de demandes simultan'' @ [233]
                 @ js ''es. Attendez quelques secondes avant de r'' @ [233] @ js ''essayer.''
             else if es_code errorState = Some (js ''503'') then
               js ''Service EME en maintenance. R'' @ [233] @ js ''essayez dans quelques minutes.''
             else
               js ''Service EME temporairement indisponible. R'' @ [233]
                 @ js ''essayez dans quelques instants.'')
              @ [10, 10, 55357, 56481] @ js '' Si le probl'' @ [232]
              @ js ''me persiste, contactez le support EME.''
        | Validation \<Rightarrow>
            js ''Votre message contient des donn'' @ [233]
              @ js ''es invalides. Veuillez le modifier.''
              @ [10, 10, 55357, 56481] @ js '' V'' @ [233]
              @ js ''rifiez que votre message ne contient pas de caract'' @ [232] @ js ''res sp''
              @ [233] @ js ''ciaux.''
        | Storage \<Rightarrow>
            js ''Probl'' @ [232] @ js ''me de stockage local. Votre historique pourrait ne pas ''
              @ [234] @ js ''tre sauvegard'' @ [233] @ js ''.''
              @ [10, 10, 55357, 56481] @ js '' Lib'' @ [233] @ js ''rez de l'' @ [39]
              @ js ''espace de stockage ou utilisez un navigateur r'' @ [233] @ js ''cent.'')
     in if es_retryable errorState
        then message @ [10, 10, 55357, 56580] @ js '' Vous pouvez r'' @ [233]
               @ js ''essayer votre demande.''
        else message)"

text \<open>The handler object. \<open>logError\<close> pushes, then keeps the last \<open>maxLogSize\<close> entries
  (\<open>slice(-maxLogSize)\<close>); its console and beacon output is not part of the state.\<close>

record ErrorHandler =
  errorLog :: "ErrorState list"
  maxLogSize :: nat

definition new_ErrorHandler :: ErrorHandler where
  "new_ErrorHandler = \<lparr> errorLog = [], maxLogSize = 100 \<rparr>"

definition logError :: "ErrorState \<Rightarrow> ErrorHandler \<Rightarrow> ErrorHandler" where
  "logError errorState h =
     (let pushed = errorLog h @ [errorState]
      in if length pushed > maxLogSize h
         then h\<lparr> errorLog := drop (length pushed - maxLogSize h) pushed \<rparr>
         else h\<lparr> errorLog := pushed \<rparr>)"

definition handleChatError :: "int \<Rightarrow> thrown \<Rightarrow> ErrorHandler \<Rightarrow> jstring \<times> ErrorHandler" where
  "handleChatError now error h =
     (let errorState = createErrorState now error
      in (getUserFriendlyMessage errorState, logError errorState h))"

definition handleValidationError ::
  "int \<Rightarrow> jstring \<Rightarrow> jstring \<Rightarrow> ErrorHandler \<Rightarrow> jstring \<times> ErrorHandler" where
  "handleValidationError now field message h =
     (js ''Erreur dans le champ '' @ [34] @ field @ [34] @ js '': '' @ message,
      logError \<lparr> es_type = Validation,
                 es_message = js ''Erreur de validation: '' @ field @ js '' - '' @ message,
                 es_code = None, es_timestamp = now, es_retryable = False \<rparr> h)"

definition handleStorageError :: "int \<Rightarrow> jstring \<Rightarrow> ErrorHandler \<Rightarrow> jstring \<times> ErrorHandler" where
  "handleStorageError now operation h =
     ((if operation = js ''save'' then
         js ''Impossible de sauvegarder la conversation. Votre historique pourrait '' @ [234]
           @ js ''tre perdu.''
       else if operation = js ''load'' then
         js ''Impossible de charger l'' @ [39] @ js ''historique pr'' @ [233] @ js ''c'' @ [233]
           @ js ''dent. Une nouvelle session a '' @ [233] @ js ''t'' @ [233] @ js '' cr''
           @ [233, 233] @ js ''e.''
       else
         js ''Probl'' @ [232] @ js ''me de stockage local d'' @ [233] @ js ''tect'' @ [233]
           @ js ''.''),
      logError \<lparr> es_type = Storage,
                 es_message = js ''Erreur de stockage lors de: '' @ operation,
                 es_code = None, es_timestamp = now, es_retryable = False \<rparr> h)"

definition handleConnectivityError :: "int \<Rightarrow> bool \<Rightarrow> ErrorHandler \<Rightarrow> jstring \<times> ErrorHandler" where
  "handleConnectivityError now isOnline h =
     (if \<not> isOnline then
        (js ''Connexion internet perdue. Vos messages seront envoy'' @ [233]
           @ js ''s une fois la connexion r'' @ [233] @ js ''tablie.'',
         logError \<lparr> es_type = Network, es_message = js ''Connexion internet perdue'',
                    es_code = None, es_timestamp = now, es_retryable = True \<rparr> h)
      else (js ''Connexion internet r'' @ [233] @ js ''tablie.'', h))"

definition clearErrorLog :: "ErrorHandler \<Rightarrow> ErrorHandler" where
  "clearErrorLog h = h\<lparr> errorLog := [] \<rparr>"

text \<open>\<open>getErrorStats\<close>: the total, the count of each type (in the order network, timeout,
  server, validation, storage) and the count of the last hour.\<close>

record ErrorStats =
  total :: nat
  byType :: "ErrorType \<Rightarrow> nat"
  recent :: nat

definition getErrorStats :: "int \<Rightarrow> ErrorHandler \<Rightarrow> ErrorStats" where
  "getErrorStats now h =
     \<lparr> total = length (errorLog h),
       byType = (\<lambda>t. length (filter (\<lambda>e. es_type e = t) (errorLog h))),
       recent = length (filter (\<lambda>e. es_timestamp e > now - 60 * 60 * 1000) (errorLog h)) \<rparr>"

text \<open>\<open>exportErrorLog\<close> serialises one record for each entry of the log; the model keeps
  the entries it serialises.\<close>

definition exportErrorLog :: "ErrorHandler \<Rightarrow> ErrorState list" where
  "exportErrorLog h = map (\<lambda>error. error) (errorLog h)"

text \<open>The public methods that touch the log, as calls on a handler; \<open>run_calls\<close> is an
  execution: any sequence of calls, each at its own time, on a fresh handler.\<close>

datatype eh_call =
    HandleChatError thrown
  | HandleValidationError jstring jstring
  | HandleStorageError jstring
  | HandleConnectivityError bool
  | ClearErrorLog

fun do_call :: "int \<times> eh_call \<Rightarrow> ErrorHandler \<Rightarrow> ErrorHandler" where
  "do_call (now, HandleChatError error) h = snd (handleChatError now error h)"
| "do_call (now, HandleValidationError field message) h =
     snd (handleValidationError now field message h)"
| "do_call (now, HandleStorageError operation) h = snd (handleStorageError now operation h)"
| "do_call (now, HandleConnectivityError isOnline) h =
     snd (handleConnectivityError now isOnline h)"
| "do_call (now, ClearErrorLog) h = clearErrorLog h"

definition run_calls :: "(int \<times> eh_call) list \<Rightarrow> ErrorHandler" where
  "run_calls calls = foldl (\<lambda>h c. do_call c h) new_ErrorHandler calls"

section \<open>Chat API (services/ChatAPI)\<close>

text \<open>
  What the network gives one request: the race of \<open>fetch\<close> against the timer is lost to
  the timer (\<open>TimedOut\<close>), or \<open>fetch\<close> rejects (a \<open>TypeError\<close> for a network failure,
  an \<open>AbortError\<close> for an aborted signal), or a response arrives. \<open>body\<close> is what
  \<open>response.json()\<close> does: \<open>Inr v\<close> returns \<open>v\<close>, \<open>Inl m\<close> throws a
  \<open>SyntaxError\<close> of message \<open>m\<close>.
\<close>

record http_response =
  status :: nat
  statusText :: jstring
  body :: "jstring + json"

datatype fetch_outcome = Rejected js_error | TimedOut | Responded http_response

definition ok :: "http_response \<Rightarrow> bool" where
  "ok response \<longleftrightarrow> 200 \<le> status response \<and> status response \<le> 299"

definition isValidResponse :: "json \<Rightarrow> bool" where
  "isValidResponse data \<longleftrightarrow>
     typeof (Some data) = js ''object'' \<and>
     data \<noteq> JNull \<and>
     typeof (get_prop data (js ''response'')) = js ''string'' \<and>
     typeof (get_prop data (js ''requestId'')) = js ''string'' \<and>
     typeof (get_prop data (js ''processingTime'')) = js ''number'' \<and>
     typeof (get_prop data (js ''metadata'')) = js ''object''"

text \<open>\<open>a || b\<close>.\<close>

definition or_else :: "json option \<Rightarrow> json option \<Rightarrow> json option" where
  "or_else a b = (if truthy a then a else b)"

text \<open>\<open>parseErrorResponse\<close>, the \<open>message\<close> of its result. Reading a property of
  \<open>null\<close> throws inside its \<open>try\<close>, as a body that is not JSON does.\<close>

definition parseErrorResponse :: "http_response \<Rightarrow> json option" where
  "parseErrorResponse response =
     (let generic = Some (JStr (js ''Server error: '' @ decimal (status response) @ js '' ''
                                 @ statusText response))
      in case body response of
           Inl m \<Rightarrow> generic
         | Inr JNull \<Rightarrow> generic
         | Inr data \<Rightarrow>
             or_else (get_prop data (js ''error''))
               (or_else (get_prop data (js ''message''))
                  (Some (JStr (js ''Unknown server error'')))))"

text \<open>The \<open>catch\<close> block of \<open>makeRequest\<close>: what it throws for the error it caught.\<close>

definition makeRequest_catch :: "js_error \<Rightarrow> js_error" where
  "makeRequest_catch error =
     (if err_class error = TypeError \<and> includes_str (err_message error) (js ''fetch'')
        then new_Error (js ''Network error: Unable to connect to EME services'')
      else if err_message error = js ''Request timeout''
        then new_Error (js ''Request timed out. Please try again.'')
      else error)"

text \<open>The message that \<open>new Error(errorData.message || `HTTP ...`)\<close> gives the error of
  a response that is not ok; \<open>None\<close>: the conversion of the server's message to a string
  throws, so no error object is made.\<close>

definition error_message :: "engine \<Rightarrow> http_response \<Rightarrow> jstring option" where
  "error_message eng response =
     (case or_else (parseErrorResponse response)
             (Some (JStr (js ''HTTP '' @ decimal (status response) @ js '': ''
                           @ statusText response))) of
        Some v \<Rightarrow> ToString eng v
      | None \<Rightarrow> Some [])"

text \<open>\<open>makeRequest\<close>. In the branch of a response that is not ok the status is attached
  after \<open>new Error\<close> has returned; when \<open>new Error\<close> throws, the \<open>catch\<close> block receives
  that \<open>TypeError\<close>, which has no status.\<close>

definition makeRequest :: "engine \<Rightarrow> fetch_outcome \<Rightarrow> js_error + json" where
  "makeRequest eng outcome =
     (case outcome of
        Rejected error \<Rightarrow> Inl (makeRequest_catch error)
      | TimedOut \<Rightarrow> Inl (makeRequest_catch (new_Error (js ''Request timeout'')))
      | Responded response \<Rightarrow>
          if \<not> ok response then
            (case error_message eng response of
               None \<Rightarrow>
                 Inl (makeRequest_catch
                        \<lparr> err_class = TypeError, err_name = js ''TypeError'',
                          err_message = conversion_error eng, err_status = None \<rparr>)
             | Some message \<Rightarrow>
                 Inl (makeRequest_catch
                        ((new_Error message)\<lparr> err_status := Some (status response) \<rparr>)))
          else
            (case body response of
               Inl m \<Rightarrow>
                 Inl (makeRequest_catch
                        \<lparr> err_class = SyntaxError, err_name = js ''SyntaxError'',
                          err_message = m, err_status = None \<rparr>)
             | Inr data \<Rightarrow>
                 if \<not> isValidResponse data
                 then Inl (makeRequest_catch
                             (new_Error (js ''Invalid response format from server'')))
                 else Inr data))"

text \<open>
  \<open>sendMessage\<close>, its retry loop. \<open>request k\<close> is what the \<open>k\<close>-th call of
  \<open>makeRequest\<close> gives. The report holds the value returned (\<open>Inr\<close>) or thrown
  (\<open>Inl\<close>), the number of calls of \<open>makeRequest\<close> and the delays waited for, in
  milliseconds and in order.
\<close>

record send_report =
  result :: "js_error + json"
  requests :: nat
  waits :: "nat list"

definition is_client_error :: "js_error \<Rightarrow> bool" where
  "is_client_error error =
     (case err_status error of None \<Rightarrow> False | Some s \<Rightarrow> s \<ge> 400 \<and> s < 500)"

text \<open>The delay after the failed attempt \<open>attempt\<close>:
  \<open>Math.min(1000 * Math.pow(2, attempt - 1), 10000)\<close>.\<close>

definition backoff_delay :: "nat \<Rightarrow> nat" where
  "backoff_delay attempt = min (1000 * 2 ^ (attempt - 1)) 10000"

text \<open>\<open>retried outcome\<close>: the outcome of one call of \<open>makeRequest\<close> passes both guards
  of the loop's \<open>catch\<close> block (it is an error, not an \<open>AbortError\<close> and without a 4xx
  status), so the loop goes on.\<close>

definition retried :: "js_error + json \<Rightarrow> bool" where
  "retried outcome =
     (case outcome of
        Inr response \<Rightarrow> False
      | Inl error \<Rightarrow> err_name error \<noteq> js ''AbortError'' \<and> \<not> is_client_error error)"

function sendMessage_from ::
  "nat \<Rightarrow> (nat \<Rightarrow> js_error + json) \<Rightarrow> nat \<Rightarrow> js_error option \<Rightarrow> nat list \<Rightarrow> send_report" where
  "sendMessage_from maxRetries request attempt lastError delays =
     (if attempt \<le> maxRetries then
        (case request attempt of
           Inr response \<Rightarrow> \<lparr> result = Inr response, requests = attempt, waits = delays \<rparr>
         | Inl error \<Rightarrow>
             if err_name error = js ''AbortError''
               then \<lparr> result = Inl error, requests = attempt, waits = delays \<rparr>
             else if is_client_error error
               then \<lparr> result = Inl error, requests = attempt, waits = delays \<rparr>
             else if attempt < maxRetries
               then sendMessage_from maxRetries request (attempt + 1) (Some error)
                      (delays @ [backoff_delay attempt])
             else sendMessage_from maxRetries request (attempt + 1) (Some error) delays)
      else
        \<lparr> result = Inl (case lastError of
                          Some error \<Rightarrow> error
                        | None \<Rightarrow> new_Error (js ''Failed to send message after retries'')),
          requests = attempt - 1, waits = delays \<rparr>)"
  by pat_completeness auto
termination
  by (relation "measure (\<lambda>(maxRetries, request, attempt, lastError, delays).
                           maxRetries + 1 - attempt)") auto

declare sendMessage_from.simps [simp del]

definition sendMessage :: "nat \<Rightarrow> (nat \<Rightarrow> js_error + json) \<Rightarrow> send_report" where
  "sendMessage maxRetries request = sendMessage_from maxRetries request 1 None []"

text \<open>The same outcome at every attempt.\<close>

definition every_attempt :: "'a \<Rightarrow> nat \<Rightarrow> 'a" where
  "every_attempt x k = x"

text \<open>An engine for the runs below: the text of a natural number, the message that V8
  gives the \<open>TypeError\<close>, and no value for the sums left to the engine, which the runs
  do not reach.\<close>

definition test_engine :: engine where
  "test_engine =
     \<lparr> number_text = (\<lambda>n. decimal (nat \<lfloor>n\<rfloor>)),
       conversion_error = js ''Cannot convert object to primitive value'',
       reduce_plus = (\<lambda>xs. None) \<rparr>"

text \<open>What \<open>makeRequest\<close> gives for a response of status \<open>s\<close> with an empty status
  text and a body that is not JSON.\<close>

definition http_failure :: "nat \<Rightarrow> js_error + json" where
  "http_failure s =
     makeRequest test_engine (Responded \<lparr> status = s, statusText = [], body = Inl [] \<rparr>)"

text \<open>A response of status 400 whose body is \<open>{"error": {"toString": 5}}\<close>.\<close>

definition unconvertible_400 :: http_response where
  "unconvertible_400 =
     \<lparr> status = 400, statusText = js ''Bad Request'',
       body = Inr (JObj [(js ''error'', JObj [(js ''toString'', JNum 5)])]) \<rparr>"

section \<open>Messages and chat state (types/interfaces)\<close>

datatype MessageRole = User | Assistant | System | ErrorRole

definition role_name :: "MessageRole \<Rightarrow> jstring" where
  "role_name r = (case r of User \<Rightarrow> js ''user'' | Assistant \<Rightarrow> js ''assistant''
                   | System \<Rightarrow> js ''system'' | ErrorRole \<Rightarrow> js ''error'')"

text \<open>\<open>ChatMessage\<close>; the field \<open>id\<close> is \<open>msg_id\<close> here. The optional \<open>metadata\<close> is
  kept as the object it is.\<close>

record ChatMessage =
  msg_id :: jstring
  timestamp :: int
  role :: MessageRole
  content :: jstring
  metadata :: "json option"

text \<open>\<open>ChatState\<close>; the preferences are kept as the object they are.\<close>

record ChatState =
  messages :: "ChatMessage list"
  sessionId :: jstring
  lastActivity :: int
  version :: jstring
  userPreferences :: json

text \<open>A message as the JavaScript object that the container's object literals create:
  \<open>id\<close>, \<open>timestamp\<close>, \<open>role\<close>, \<open>content\<close> and, when given, \<open>metadata\<close>.\<close>

definition message_json :: "ChatMessage \<Rightarrow> json" where
  "message_json m =
     JObj ([(js ''id'', JStr (msg_id m)),
            (js ''timestamp'', JNum (of_int (timestamp m))),
            (js ''role'', JStr (role_name (role m))),
            (js ''content'', JStr (content m))]
           @ (case metadata m of None \<Rightarrow> [] | Some md \<Rightarrow> [(js ''metadata'', md)]))"

section \<open>Storage data (utils/sanitization)\<close>

text \<open>\<open>validateStorageData\<close>. \<open>field in data\<close> holds of an object with that key; an
  array has none of the three keys. Reading a property of a \<open>null\<close> message throws, and
  the \<open>catch\<close> returns \<open>false\<close>.\<close>

definition has_key :: "json \<Rightarrow> jstring \<Rightarrow> bool" where
  "has_key data field = (case data of JObj kvs \<Rightarrow> field \<in> fst ` set kvs | _ \<Rightarrow> False)"

definition message_ok :: "json \<Rightarrow> bool" where
  "message_ok message =
     (if message = JNull then False
      else \<not> (\<not> truthy (get_prop message (js ''id'')) \<or>
                \<not> truthy (get_prop message (js ''timestamp'')) \<or>
                \<not> truthy (get_prop message (js ''role'')) \<or>
                typeof (get_prop message (js ''content'')) \<noteq> js ''string''))"

definition validateStorageData :: "json \<Rightarrow> bool" where
  "validateStorageData data =
     (if \<not> truthy (Some data) \<or> typeof (Some data) \<noteq> js ''object'' then False
      else if \<not> list_all (has_key data) [js ''version'', js ''sessionId'', js ''messages'']
        then False
      else (case get_prop data (js ''messages'') of
              Some (JArr ms) \<Rightarrow> list_all message_ok ms
            | _ \<Rightarrow> False))"

text \<open>\<open>sanitizeUserInput\<close> applied to any value: what is not a string gives \<open>''\<close>.\<close>

definition sanitizeUserInput_any :: "(jstring \<Rightarrow> jstring) \<Rightarrow> json option \<Rightarrow> jstring" where
  "sanitizeUserInput_any purify v =
     (case v of Some (JStr s) \<Rightarrow> sanitizeUserInput purify s | _ \<Rightarrow> [])"

text \<open>\<open>{...v}\<close>: the own enumerable properties of a value, and \<open>{..., k: x}\<close>: the key
  keeps its place when it is there already and comes last otherwise.\<close>

fun spread :: "json \<Rightarrow> (jstring \<times> json) list" where
  "spread (JObj kvs) = kvs"
| "spread (JArr xs) = zip (map decimal [0..<length xs]) xs"
| "spread (JStr s) = zip (map decimal [0..<length s]) (map (\<lambda>c. JStr [c]) s)"
| "spread v = []"

fun set_prop :: "(jstring \<times> json) list \<Rightarrow> jstring \<Rightarrow> json \<Rightarrow> (jstring \<times> json) list" where
  "set_prop [] k x = [(k, x)]"
| "set_prop ((k', y) # kvs) k x = (if k' = k then (k, x) # kvs else (k', y) # set_prop kvs k x)"

text \<open>One round of the \<open>map\<close> in \<open>sanitizeStorageData\<close>; \<open>None\<close>: reading
  \<open>message.content\<close> throws (the message is \<open>null\<close>).\<close>

definition sanitize_message :: "(jstring \<Rightarrow> jstring) \<Rightarrow> json \<Rightarrow> json option" where
  "sanitize_message purify message =
     (if message = JNull then None
      else Some (JObj (set_prop (spread message) (js ''content'')
                   (JStr (sanitizeUserInput_any purify (get_prop message (js ''content'')))))))"

text \<open>\<open>sanitizeStorageData\<close>; \<open>None\<close> is its \<open>null\<close>. \<open>data.messages?.map(...) || []\<close>:
  no messages give \<open>[]\<close>, an array is mapped, and anything else has no \<open>map\<close> to call,
  which throws into the \<open>catch\<close>.\<close>

definition sanitizeStorageData :: "(jstring \<Rightarrow> jstring) \<Rightarrow> json \<Rightarrow> json option" where
  "sanitizeStorageData purify data =
     (if \<not> truthy (Some data) \<or> typeof (Some data) \<noteq> js ''object'' then None
      else
        (case get_prop data (js ''messages'') of
           None \<Rightarrow> Some (JObj (set_prop (spread data) (js ''messages'') (JArr [])))
         | Some JNull \<Rightarrow> Some (JObj (set_prop (spread data) (js ''messages'') (JArr [])))
         | Some (JArr ms) \<Rightarrow>
             (case those (map (sanitize_message purify) ms) of
                None \<Rightarrow> None
              | Some ms' \<Rightarrow> Some (JObj (set_prop (spread data) (js ''messages'') (JArr ms'))))
         | Some other \<Rightarrow> None))"

section \<open>Storage management (services/StorageManager)\<close>

text \<open>\<open>a || b\<close> where \<open>b\<close> is a value.\<close>

definition or_value :: "json option \<Rightarrow> json \<Rightarrow> json" where
  "or_value a b = (case a of None \<Rightarrow> b | Some v \<Rightarrow> if truthy (Some v) then v else b)"

text \<open>
  \<open>localStorage\<close>, as far as the manager uses it: the text under the key
  \<open>eme-chatbot-session\<close>, if any. A text is represented by what \<open>JSON.parse\<close> makes of
  it: the value it denotes, or the failure to parse; the empty text, which \<open>!stored\<close>
  tells apart, is a case of its own. \<open>JSON.parse (JSON.stringify v)\<close> is \<open>v\<close> for the
  values of type \<open>json\<close>, so \<open>setItem (JSON.stringify v)\<close> stores \<open>Json v\<close>.
  \<open>setItem_throws\<close>: the browser refuses writes (quota exceeded, storage disabled);
  \<open>getItem\<close> and \<open>removeItem\<close> do not throw.
\<close>

datatype stored_text = Json json | NotJson | EmptyText

record localStorage =
  item :: "stored_text option"
  setItem_throws :: bool

definition setItem :: "json \<Rightarrow> localStorage \<Rightarrow> localStorage option" where
  "setItem v ls = (if setItem_throws ls then None else Some (ls\<lparr> item := Some (Json v) \<rparr>))"

definition removeItem :: "localStorage \<Rightarrow> localStorage" where
  "removeItem ls = ls\<lparr> item := None \<rparr>"

definition currentVersion :: jstring where
  "currentVersion = js ''1.0''"

definition maxStorageSize :: nat where
  "maxStorageSize = 5 * 1024 * 1024"

definition clearChat :: "localStorage \<Rightarrow> localStorage" where
  "clearChat ls = removeItem ls"

text \<open>\<open>getStoredData\<close>; \<open>None\<close> is its \<open>null\<close>.\<close>

definition getStoredData :: "localStorage \<Rightarrow> json option" where
  "getStoredData ls = (case item ls of Some (Json v) \<Rightarrow> Some v | _ \<Rightarrow> None)"

text \<open>\<open>getDefaultPreferences\<close>; \<open>reduced_motion\<close> is what the media query
  \<open>prefers-reduced-motion: reduce\<close> answers.\<close>

definition getDefaultPreferences :: "bool \<Rightarrow> json" where
  "getDefaultPreferences reduced_motion =
     JObj [(js ''theme'', JStr (js ''light'')),
           (js ''fontSize'', JStr (js ''medium'')),
           (js ''autoScroll'', JBool True),
           (js ''soundEnabled'', JBool False),
           (js ''animationsEnabled'', JBool (\<not> reduced_motion)),
           (js ''language'', JStr (js ''fr'')),
           (js ''accessibilityMode'', JBool False)]"

text \<open>\<open>createInitialState\<close>; \<open>uuid\<close> is what \<open>uuidv4()\<close> returns to
  \<open>generateSessionId\<close>, \<open>now\<close> what \<open>Date.now()\<close> returns.\<close>

definition createInitialState :: "int \<Rightarrow> jstring \<Rightarrow> bool \<Rightarrow> ChatState" where
  "createInitialState now uuid reduced_motion =
     \<lparr> messages = [], sessionId = uuid, lastActivity = now, version = currentVersion,
       userPreferences = getDefaultPreferences reduced_motion \<rparr>"

text \<open>\<open>calculateAverageResponseTime\<close>: the delays between a user message and the
  assistant message right after it, when positive and below one minute, and the
  floating-point quotient of their sum by their number (at least 1).\<close>

fun responseTimes :: "ChatMessage list \<Rightarrow> int list" where
  "responseTimes (prevMessage # currentMessage # rest) =
     (if role prevMessage = User \<and> role currentMessage = Assistant \<and>
         timestamp currentMessage - timestamp prevMessage > 0 \<and>
         timestamp currentMessage - timestamp prevMessage < 60000
      then [timestamp currentMessage - timestamp prevMessage] else [])
     @ responseTimes (currentMessage # rest)"
| "responseTimes ms = []"

definition calculateAverageResponseTime :: "ChatMessage list \<Rightarrow> rat" where
  "calculateAverageResponseTime ms =
     (if length (responseTimes ms) = 0 then 0
      else to_double (of_int (sum_list (responseTimes ms))
                        / of_nat (length (responseTimes ms))))"

text \<open>\<open>cleanOldMessages\<close>, on the record \<open>saveChat\<close> hands it, which comes from
  \<open>sanitizeStorageData\<close>: its messages are an array of objects whose contents are
  strings, and its metadata is an object. The result keeps the last 50 messages and
  updates the two counts of the metadata. \<open>None\<close> stands for every record of another
  shape; \<open>saveChat\<close> passes none (lemma \<open>cleanOldMessages_sanitized\<close>).\<close>

definition content_length :: "json \<Rightarrow> nat option" where
  "content_length msg =
     (case get_prop msg (js ''content'') of Some (JStr s) \<Rightarrow> Some (length s) | _ \<Rightarrow> None)"

definition cleanOldMessages :: "json \<Rightarrow> json option" where
  "cleanOldMessages data =
     (case (get_prop data (js ''messages''), get_prop data (js ''metadata'')) of
        (Some (JArr ms), Some (JObj md)) \<Rightarrow>
          (let kept = (if length ms > 50 then drop (length ms - 50) ms else ms)
           in case those (map content_length kept) of
                None \<Rightarrow> None
              | Some lens \<Rightarrow>
                  Some (JObj (set_prop
                    (set_prop (spread data) (js ''messages'') (JArr kept))
                    (js ''metadata'')
                    (JObj (set_prop
                      (set_prop md (js ''totalMessages'') (JNum (of_nat (length kept))))
                      (js ''totalCharacters'') (JNum (of_nat (sum_list lens))))))))
      | _ \<Rightarrow> None)"

text \<open>
  \<open>saveChat\<close>. \<open>purify\<close> is DOMPurify, \<open>serialized_length v\<close> the length of
  \<open>JSON.stringify v\<close>, \<open>now\<close> the clock. \<open>storedChatData\<close> is the record \<open>data\<close> it
  builds first; the result of \<open>saveChat\<close> is the boolean returned and the storage
  afterwards.
\<close>

definition storedChatData :: "int \<Rightarrow> ChatState \<Rightarrow> localStorage \<Rightarrow> json" where
  "storedChatData now state ls =
     JObj [(js ''version'', JStr currentVersion),
           (js ''sessionId'', JStr (sessionId state)),
           (js ''created'',
              or_value (case getStoredData ls of
                          None \<Rightarrow> None
                        | Some JNull \<Rightarrow> None
                        | Some stored \<Rightarrow> get_prop stored (js ''created''))
                       (JNum (of_int now))),
           (js ''lastModified'', JNum (of_int now)),
           (js ''messages'', JArr (map message_json (messages state))),
           (js ''userPreferences'', userPreferences state),
           (js ''metadata'',
              JObj [(js ''totalMessages'', JNum (of_nat (length (messages state)))),
                    (js ''totalCharacters'',
                       JNum (of_nat (sum_list (map (\<lambda>msg. length (content msg))
                                                   (messages state))))),
                    (js ''averageResponseTime'',
                       JNum (calculateAverageResponseTime (messages state)))])]"

definition saveChat ::
  "(jstring \<Rightarrow> jstring) \<Rightarrow> (json \<Rightarrow> nat) \<Rightarrow> int \<Rightarrow> ChatState \<Rightarrow> localStorage
     \<Rightarrow> bool \<times> localStorage" where
  "saveChat purify serialized_length now state ls =
     (case sanitizeStorageData purify (storedChatData now state ls) of
        None \<Rightarrow> (False, ls)
      | Some sanitizedData \<Rightarrow>
          (case (if serialized_length sanitizedData > maxStorageSize
                 then cleanOldMessages sanitizedData else Some sanitizedData) of
             None \<Rightarrow> (False, ls)
           | Some written \<Rightarrow>
               (case setItem written ls of
                  None \<Rightarrow> (False, ls)
                | Some ls' \<Rightarrow> (True, ls'))))"

text \<open>
  \<open>msg.content?.length || 0\<close>, the term that the \<open>reduce\<close> of \<open>migrateData\<close> adds for
  one message; \<open>None\<close>: the message is \<open>null\<close> and reading its content throws. A
  content that is \<open>null\<close> or absent gives 0; any other content gives its \<open>length\<close>
  when that is truthy (the length of a string or an array, the property \<open>length\<close> of an
  object, whatever value it holds) and 0 otherwise.
\<close>

definition length_or_zero :: "json \<Rightarrow> json option" where
  "length_or_zero msg =
     (if msg = JNull then None
      else (case get_prop msg (js ''content'') of
              None \<Rightarrow> Some (JNum 0)
            | Some JNull \<Rightarrow> Some (JNum 0)
            | Some c \<Rightarrow> Some (or_value (get_length c) (JNum 0))))"

text \<open>
  \<open>xs.reduce((sum, x) => sum + x, 0)\<close>. The natural number \<open>n\<close> of a value \<open>JNum n\<close>
  is \<open>count_of\<close>. When every term is a natural number and the sum is at most \<open>2^53\<close>,
  every addition is exact and the result is the sum; any other list is left to the
  engine.
\<close>

definition count_of :: "json \<Rightarrow> nat option" where
  "count_of x = (case x of
                   JNum n \<Rightarrow> if 0 \<le> n \<and> n = of_int \<lfloor>n\<rfloor> then Some (nat \<lfloor>n\<rfloor>) else None
                 | _ \<Rightarrow> None)"

definition sum_values :: "engine \<Rightarrow> json list \<Rightarrow> json option" where
  "sum_values eng xs =
     (case those (map count_of xs) of
        Some ns \<Rightarrow> if sum_list ns \<le> 2 ^ 53 then Some (JNum (of_nat (sum_list ns)))
                   else reduce_plus eng xs
      | None \<Rightarrow> reduce_plus eng xs)"

text \<open>The record that \<open>migrateData\<close> writes for a record without version, given its
  messages \<open>ms\<close> and the sum \<open>chars\<close> over their contents.\<close>

definition migrated_record ::
  "int \<Rightarrow> jstring \<Rightarrow> bool \<Rightarrow> json \<Rightarrow> json list \<Rightarrow> json \<Rightarrow> json" where
  "migrated_record now uuid reduced_motion data ms chars =
     JObj [(js ''version'', JStr currentVersion),
           (js ''sessionId'', or_value (get_prop data (js ''sessionId'')) (JStr uuid)),
           (js ''created'', or_value (get_prop data (js ''created'')) (JNum (of_int now))),
           (js ''lastModified'', JNum (of_int now)),
           (js ''messages'', JArr ms),
           (js ''userPreferences'',
              or_value (get_prop data (js ''userPreferences''))
                (getDefaultPreferences reduced_motion)),
           (js ''metadata'',
              JObj [(js ''totalMessages'', JNum (of_nat (length ms))),
                    (js ''totalCharacters'', chars),
                    (js ''averageResponseTime'', JNum 0)])]"

text \<open>
  \<open>migrateData\<close>. The result is the record returned and the storage afterwards;
  \<open>None\<close>: the method throws (the messages of a record without version are something
  other than an array, or hold \<open>null\<close>, or a conversion in the sum throws), which
  \<open>loadChat\<close> catches. A failed write of the migrated record is caught and logged.
  The record is given as \<open>JSON.stringify\<close> writes it; the record in memory differs from
  it only when the sum is not a finite number, in its \<open>totalCharacters\<close>, which nothing
  reads.
\<close>

definition migrateData ::
  "engine \<Rightarrow> int \<Rightarrow> jstring \<Rightarrow> bool \<Rightarrow> json \<Rightarrow> localStorage
     \<Rightarrow> (json \<times> localStorage) option" where
  "migrateData eng now uuid reduced_motion data ls =
     (if data = JNull then None
      else if \<not> truthy (get_prop data (js ''version'')) \<or>
              get_prop data (js ''version'') \<noteq> Some (JStr currentVersion) then
        (let migrated =
           (if \<not> truthy (get_prop data (js ''version'')) then
              (case or_value (get_prop data (js ''messages'')) (JArr []) of
                 JArr ms \<Rightarrow>
                   (case those (map length_or_zero ms) of
                      None \<Rightarrow> None
                    | Some xs \<Rightarrow>
                        (case sum_values eng xs of
                           None \<Rightarrow> None
                         | Some chars \<Rightarrow>
                             Some (migrated_record now uuid reduced_motion data ms chars)))
               | _ \<Rightarrow> None)
            else Some data)
         in case migrated of
              None \<Rightarrow> None
            | Some data' \<Rightarrow>
                (case setItem data' ls of
                   None \<Rightarrow> Some (data', ls)
                 | Some ls' \<Rightarrow> Some (data', ls')))
      else Some (data, ls))"

text \<open>
  \<open>loadChat\<close>. The state it returns is cast to \<open>ChatState\<close> unchecked: its fields hold
  whatever the stored record holds, so they are values of type \<open>json\<close> here.
\<close>

record LoadedState =
  loaded_messages :: json
  loaded_sessionId :: json
  loaded_lastActivity :: json
  loaded_version :: jstring
  loaded_userPreferences :: json

definition loadChat ::
  "engine \<Rightarrow> int \<Rightarrow> jstring \<Rightarrow> bool \<Rightarrow> localStorage
     \<Rightarrow> LoadedState option \<times> localStorage" where
  "loadChat eng now uuid reduced_motion ls =
     (case item ls of
        None \<Rightarrow> (None, ls)
      | Some EmptyText \<Rightarrow> (None, ls)
      | Some NotJson \<Rightarrow> (None, clearChat ls)
      | Some (Json data) \<Rightarrow>
          if \<not> validateStorageData data then (None, clearChat ls)
          else
            (case migrateData eng now uuid reduced_motion data ls of
               None \<Rightarrow> (None, clearChat ls)
             | Some (migratedData, ls') \<Rightarrow>
                 (Some \<lparr> loaded_messages =
                           or_value (get_prop migratedData (js ''messages'')) (JArr []),
                         loaded_sessionId =
                           or_value (get_prop migratedData (js ''sessionId'')) (JStr uuid),
                         loaded_lastActivity =
                           or_value (get_prop migratedData (js ''lastModified'')) (JNum (of_int now)),
                         loaded_version = currentVersion,
                         loaded_userPreferences =
                           or_value (get_prop migratedData (js ''userPreferences'')) (getDefaultPreferences reduced_motion) \<rparr>,
                  ls')))"

section \<open>The container (components/ChatbotContainer)\<close>

text \<open>
  The request the container builds (its constant fields, \<open>userType\<close>, \<open>language\<close>,
  \<open>clientVersion\<close> and the user agent, are left out), and the \<open>ChatAPI\<close> object as the
  container sees it: the calls of \<open>sendMessage\<close> so far, each of which creates an
  \<open>AbortController\<close>, and the indices of the calls whose controller has been aborted.
  \<open>sendMessage\<close> begins by aborting the controller of the call before it, if there is one.
\<close>

record ChatAPIRequest =
  req_message :: jstring
  req_sessionId :: jstring
  req_previousMessages :: "ChatMessage list"
  req_timestamp :: int

record ChatAPI =
  api_maxRetries :: nat
  api_calls :: "ChatAPIRequest list"
  api_aborted :: "nat list"

definition sendMessage_called :: "ChatAPIRequest \<Rightarrow> ChatAPI \<Rightarrow> ChatAPI" where
  "sendMessage_called request api =
     api\<lparr> api_aborted := (if api_calls api = [] then api_aborted api
                            else api_aborted api @ [length (api_calls api) - 1]),
          api_calls := api_calls api @ [request] \<rparr>"

text \<open>What the browser and the libraries supply: DOMPurify, the length of a
  serialisation, the media query.\<close>

record runtime =
  rt_purify :: "jstring \<Rightarrow> jstring"
  rt_serialized_length :: "json \<Rightarrow> nat"
  rt_reduced_motion :: bool

text \<open>The container: its chat state, the loading flag, its three services and the
  messages its message container displays.\<close>

record Container =
  chatState :: ChatState
  isLoading :: bool
  storage :: localStorage
  errorHandler :: ErrorHandler
  chatAPI :: ChatAPI
  displayed :: "ChatMessage list"

text \<open>The constructor when nothing is stored: \<open>config.maxRetries || 3\<close>, a fresh handler
  and the initial state.\<close>

definition new_Container :: "nat \<Rightarrow> int \<Rightarrow> jstring \<Rightarrow> runtime \<Rightarrow> localStorage \<Rightarrow> Container" where
  "new_Container config_maxRetries now uuid rt ls =
     \<lparr> chatState = createInitialState now uuid (rt_reduced_motion rt),
       isLoading = False,
       storage = ls,
       errorHandler = new_ErrorHandler,
       chatAPI = \<lparr> api_maxRetries = (if config_maxRetries = 0 then 3 else config_maxRetries),
                   api_calls = [], api_aborted = [] \<rparr>,
       displayed = [] \<rparr>"

text \<open>\<open>addMessage\<close>: push, display, save (the result of \<open>saveChat\<close> is dropped). A
  synchronous run reads the clock several times (the timestamp of a message,
  \<open>lastActivity\<close>, the times that \<open>saveChat\<close> writes); \<open>now\<close> is the value of all the
  reads of one run.\<close>

definition addMessage :: "runtime \<Rightarrow> int \<Rightarrow> ChatMessage \<Rightarrow> Container \<Rightarrow> Container" where
  "addMessage rt now message c =
     (let state = (chatState c)\<lparr> messages := messages (chatState c) @ [message],
                                 lastActivity := now \<rparr>
      in c\<lparr> chatState := state,
            displayed := displayed c @ [message],
            storage := snd (saveChat (rt_purify rt) (rt_serialized_length rt) now state
                              (storage c)) \<rparr>)"

definition showSystemMessage ::
  "runtime \<Rightarrow> jstring \<Rightarrow> int \<Rightarrow> jstring \<Rightarrow> MessageRole \<Rightarrow> Container \<Rightarrow> Container" where
  "showSystemMessage rt uuid now text r c =
     addMessage rt now
       \<lparr> msg_id = uuid, timestamp = now, role = r, content = text, metadata = None \<rparr> c"

definition welcome_text :: jstring where
  "welcome_text =
     js ''Bonjour ! Je suis l'' @ [39] @ js ''assistant num'' @ [233] @ js ''rique d''
       @ [39] @ js ''Extended Monaco Entreprises (EME).'' @ [10, 10]
       @ js ''Je peux vous aider avec :'' @ [10, 8226] @ js '' **Diagnostics de maturit''
       @ [233] @ js '' num'' @ [233] @ js ''rique** - '' @ [201] @ js ''valuez la maturit''
       @ [233] @ js '' digitale de votre entreprise'' @ [10, 8226]
       @ js '' **Annuaire professionnel** - Trouvez des prestataires certifi'' @ [233]
       @ js ''s'' @ [10, 8226] @ js '' **Opportunit'' @ [233] @ js ''s de financement** - D''
       @ [233] @ js ''couvrez les aides disponibles'' @ [10, 8226]
       @ js '' **FlashLearn IA 2026** - Informations sur notre programme d'' @ [39]
       @ js ''int'' @ [233] @ js ''gration IA'' @ [10, 10]
       @ js ''Comment puis-je vous aider aujourd'' @ [39] @ js ''hui ?''"

definition welcomeMessage :: "jstring \<Rightarrow> int \<Rightarrow> ChatMessage" where
  "welcomeMessage uuid now =
     \<lparr> msg_id = uuid, timestamp = now, role = Assistant, content = welcome_text,
       metadata = None \<rparr>"

definition showWelcomeMessage :: "runtime \<Rightarrow> jstring \<Rightarrow> int \<Rightarrow> Container \<Rightarrow> Container" where
  "showWelcomeMessage rt uuid now c = addMessage rt now (welcomeMessage uuid now) c"

text \<open>\<open>getRecentMessages\<close>: \<open>slice(-count)\<close>, the last \<open>count\<close> messages;
  \<open>slice(-0)\<close> is \<open>slice(0)\<close>, the whole list.\<close>

definition getRecentMessages :: "nat \<Rightarrow> Container \<Rightarrow> ChatMessage list" where
  "getRecentMessages count c =
     (if count = 0 then messages (chatState c)
      else drop (length (messages (chatState c)) - count) (messages (chatState c)))"

text \<open>
  \<open>handleUserMessage\<close> is asynchronous. Its first part runs from the call to the
  \<open>await\<close> of \<open>chatAPI.sendMessage\<close> (the production branch; the development branch
  awaits a mock): the guard, the user message, the loading flag, the request.
  \<open>uuid\<close> and \<open>now\<close> are what \<open>uuidv4()\<close> and \<open>Date.now()\<close> return in it.
\<close>

definition handleUserMessage_start ::
  "runtime \<Rightarrow> jstring \<Rightarrow> int \<Rightarrow> jstring \<Rightarrow> Container \<Rightarrow> Container" where
  "handleUserMessage_start rt uuid now message c =
     (if trim message = [] \<or> isLoading c then c
      else
        let c1 = addMessage rt now
                   \<lparr> msg_id = uuid, timestamp = now, role = User, content = trim message,
                     metadata = None \<rparr> c;
            c2 = c1\<lparr> isLoading := True \<rparr>;
            request = \<lparr> req_message = trim message,
                        req_sessionId = sessionId (chatState c2),
                        req_previousMessages = getRecentMessages 5 c2,
                        req_timestamp = now \<rparr>
        in c2\<lparr> chatAPI := sendMessage_called request (chatAPI c2) \<rparr>)"

text \<open>
  Its second part runs when the awaited call settles, with the response returned
  (\<open>Inr\<close>) or the error thrown (\<open>Inl\<close>): the assistant message or the error message,
  then \<open>setLoading(false)\<close>. A response has passed \<open>isValidResponse\<close>, so its
  \<open>response\<close> is a string; the metadata of the message holds the properties of the
  response that are there.
\<close>

definition response_text :: "json \<Rightarrow> jstring" where
  "response_text response =
     (case get_prop response (js ''response'') of Some (JStr s) \<Rightarrow> s | _ \<Rightarrow> [])"

definition response_metadata :: "json \<Rightarrow> json" where
  "response_metadata response =
     JObj (concat (map (\<lambda>k. case get_prop response k of None \<Rightarrow> [] | Some v \<Rightarrow> [(k, v)])
                       [js ''requestId'', js ''processingTime'', js ''confidence'',
                        js ''sources'']))"

definition assistantMessage :: "jstring \<Rightarrow> int \<Rightarrow> json \<Rightarrow> ChatMessage" where
  "assistantMessage uuid now response =
     \<lparr> msg_id = uuid, timestamp = now, role = Assistant, content = response_text response,
       metadata = Some (response_metadata response) \<rparr>"

definition handleUserMessage_settled ::
  "runtime \<Rightarrow> jstring \<Rightarrow> int \<Rightarrow> js_error + json \<Rightarrow> Container \<Rightarrow> Container" where
  "handleUserMessage_settled rt uuid now outcome c =
     (case outcome of
        Inr response \<Rightarrow>
          (addMessage rt now (assistantMessage uuid now response) c)\<lparr> isLoading := False \<rparr>
      | Inl error \<Rightarrow>
          (let handled = handleChatError now (ErrorObj error) (errorHandler c)
           in (showSystemMessage rt uuid now (fst handled) ErrorRole
                 (c\<lparr> errorHandler := snd handled \<rparr>))\<lparr> isLoading := False \<rparr>))"

text \<open>
  \<open>handleClearChat\<close>; \<open>confirmed\<close> is the answer to the confirmation dialog,
  \<open>session_uuid\<close> and \<open>message_uuid\<close> the two identifiers drawn (for the new session
  and for the welcome message).
\<close>

definition handleClearChat ::
  "runtime \<Rightarrow> bool \<Rightarrow> jstring \<Rightarrow> jstring \<Rightarrow> int \<Rightarrow> Container \<Rightarrow> Container" where
  "handleClearChat rt confirmed session_uuid message_uuid now c =
     (if confirmed then
        showWelcomeMessage rt message_uuid now
          (c\<lparr> storage := clearChat (storage c),
               chatState := createInitialState now session_uuid (rt_reduced_motion rt),
               displayed := [] \<rparr>)
      else c)"

text \<open>A runtime for the runs below: the sanitizer on text without markup, a
  serialisation far below the cap, no preference for reduced motion; and a storage that
  is empty and accepts writes.\<close>

definition small_length :: "json \<Rightarrow> nat" where
  "small_length v = 0"

definition test_runtime :: runtime where
  "test_runtime = \<lparr> rt_purify = purify_text, rt_serialized_length = small_length,
                     rt_reduced_motion = False \<rparr>"

definition empty_storage :: localStorage where
  "empty_storage = \<lparr> item = None, setItem_throws = False \<rparr>"

text \<open>A message with its content sanitized, as \<open>sanitizeStorageData\<close> leaves it.\<close>

definition sanitized :: "(jstring \<Rightarrow> jstring) \<Rightarrow> ChatMessage \<Rightarrow> ChatMessage" where
  "sanitized purify m = m\<lparr> content := sanitizeUserInput purify (content m) \<rparr>"

text \<open>A session of one assistant message whose content has two lines, \<open>a\<close> and \<open>b\<close>.\<close>

definition two_line_session :: ChatState where
  "two_line_session =
     \<lparr> messages = [\<lparr> msg_id = js ''m1'', timestamp = 1000, role = Assistant,
                      content = js ''a'' @ 10 # js ''b'', metadata = None \<rparr>],
       sessionId = js ''s1'', lastActivity = 1000, version = js ''1.0'',
       userPreferences = getDefaultPreferences False \<rparr>"



text \<open>Two response bodies: one whose \<open>processingTime\<close> is the string \<open>5\<close>, one whose
  \<open>metadata\<close> is \<open>null\<close>.\<close>

definition wrong_type_body :: json where
  "wrong_type_body =
     JObj [(js ''response'', JStr (js ''hello'')), (js ''requestId'', JStr (js ''r1'')),
           (js ''processingTime'', JStr (js ''5'')), (js ''metadata'', JObj [])]"

definition null_metadata_body :: json where
  "null_metadata_body =
     JObj [(js ''response'', JStr (js ''hello'')), (js ''requestId'', JStr (js ''r1'')),
           (js ''processingTime'', JNum 5), (js ''metadata'', JNull)]"




text \<open>A fresh container after a confirmed clear, and a container cleared while its first
  request is outstanding.\<close>

definition cleared_while_loading :: Container where
  "cleared_while_loading =
     handleClearChat test_runtime True (js ''s2'') (js ''w1'') 2000
       (handleUserMessage_start test_runtime (js ''id1'') 1001 (js ''first'')
         (new_Container 3 1000 (js ''s1'') test_runtime empty_storage))"


section \<open>Properties\<close>

subsection \<open>Strings and values\<close>

lemma js_eq_iff: "js a = js b \<longleftrightarrow> a = b"
  unfolding js_def by (rule inj_map_eq_map) (simp add: inj_on_def)

lemma trim_le: "length (trim s) \<le> length s"
  unfolding trim_def by (metis length_rev length_dropWhile_le le_trans)

lemma typeof_string: "typeof x = js ''string'' \<longleftrightarrow> (\<exists>s. x = Some (JStr s))"
  by (cases x rule: typeof.cases) (simp_all add: js_eq_iff)

lemma typeof_number: "typeof x = js ''number'' \<longleftrightarrow> (\<exists>n. x = Some (JNum n))"
  by (cases x rule: typeof.cases) (simp_all add: js_eq_iff)

lemma typeof_object:
  "typeof x = js ''object'' \<longleftrightarrow>
     x = Some JNull \<or> (\<exists>xs. x = Some (JArr xs)) \<or> (\<exists>kvs. x = Some (JObj kvs))"
  by (cases x rule: typeof.cases) (simp_all add: js_eq_iff)

text \<open>The facts that evaluate \<open>to_double\<close> on a quotient of numerals.\<close>

lemma floor_rat_numeral: "\<lfloor>(numeral a :: rat) / numeral b\<rfloor> = numeral a div numeral b"
  using floor_divide_of_int_eq [of "numeral a" "numeral b", where ?'a = rat] by simp

lemma floor_log2_small: "floor_log2 0 = 0" "floor_log2 (Suc 0) = 0"
  by (subst floor_log2.simps, simp)+

lemma floor_log2_numeral:
  "floor_log2 (numeral k) =
     (if numeral k < (2::nat) then 0 else Suc (floor_log2 (numeral k div 2)))"
  by (subst floor_log2.simps) simp

lemmas eval_double =
  to_double_def round_half_even_def Let_def floor_rat_numeral floor_log2_numeral floor_log2_small

text \<open>The facts that evaluate the matcher and the string functions on a literal.\<close>

lemmas eval_strings =
  js_def trim_def isWhiteSpace_def isWordChar_def isControl_def isBlank_def canonicalize_def

lemmas eval_regex =
  detectXSSPatterns_def xssPatterns_def lits_def regex_test_def Plus_def

subsection \<open>Input validation\<close>

text \<open>
  C2. For every string \<open>s\<close>, \<open>validate(s).canSend\<close> is true if and only if the trimmed
  form of \<open>s\<close> has positive length, the untrimmed \<open>s\<close> is no longer than the maximum
  (4000 for the validator of the input field) and no unsafe-content pattern matches \<open>s\<close>.
\<close>

theorem validate_canSend_iff:
  "canSend (validate v s) \<longleftrightarrow>
     0 < length (trim s) \<and> length s \<le> maxLength v \<and> \<not> detectXSSPatterns s"
  by (auto simp: validate_def Let_def isEmpty_def trim_def)

theorem validate_canSend_witness:
  "canSend (validate (new_InputValidator 4000) (js ''hi''))"
  using validate_canSend_iff [of "new_InputValidator 4000" "js ''hi''"]
  by (simp add: new_InputValidator_def eval_regex eval_strings)

text \<open>The thresholds of the validator in use, as the tests of the repository have them,
  and a quotient that is not a double: 32 / 3 is rounded to 53 bits.\<close>

lemma thresholds_4000:
  "new_InputValidator 4000
     = \<lparr> maxLength = 4000, warningThreshold = 3500, criticalThreshold = 3800 \<rparr>"
proof -
  have "to_double (4000 * (7 / 8)) = 3500"
    by (simp add: eval_double)
  moreover have "to_double (4000 * (4278419646001971 / 4503599627370496)) = 3800"
    by (simp add: eval_double)
  ultimately show ?thesis
    unfolding new_InputValidator_def floor_times_def by simp
qed

lemma to_double_third: "to_double (32 / 3) = 6004799503160661 / 562949953421312"
  by (simp add: eval_double)

text \<open>The three rejections of the specification's scenario: blank input, 4001 characters,
  a script element.\<close>

lemma validate_rejects_blank: "\<not> canSend (validate (new_InputValidator 4000) (js ''   ''))"
  by (simp add: validate_def Let_def isEmpty_def eval_strings)

lemma validate_rejects_long: "\<not> canSend (validate (new_InputValidator 4000) (replicate 4001 97))"
  by (simp add: validate_def Let_def new_InputValidator_def)

lemma validate_rejects_script:
  "\<not> canSend (validate (new_InputValidator 4000) (js ''<script>alert(1)</script>''))"
  by (simp add: validate_def Let_def eval_regex eval_strings)

text \<open>
  C1, as amended. For every input string \<open>s\<close> (of any length) the prepared output is no
  longer than the maximum: the final \<open>substring\<close> guarantees it whatever the sanitizer
  returns. The second half of the claim does not hold: text without markup, such as
  \<open>onclick=1\<close>, passes every step of \<open>prepareInput\<close> unchanged, and
  \<open>detectXSSPatterns\<close> still matches it.
\<close>

theorem prepareInput_length:
  "length (prepareInput purify v s) \<le> maxLength v"
  using trim_le [of "take (maxLength v) (normalizeWhitespace (sanitizeUserInput purify s))"]
  by (simp add: prepareInput_def Let_def)

theorem prepareInput_length_witness:
  "length (prepareInput purify_text (new_InputValidator 4000) (js ''  hello   world  ''))
     \<le> maxLength (new_InputValidator 4000)"
  by (rule prepareInput_length)

lemma prepareInput_onclick:
  "prepareInput purify_text (new_InputValidator 4000) (js ''onclick=1'') = js ''onclick=1''"
  by (simp add: prepareInput_def new_InputValidator_def sanitizeUserInput_def
        normalizeWhitespace_def purify_text_def eval_strings)

lemma detectXSSPatterns_onclick: "detectXSSPatterns (js ''onclick=1'')"
  by (simp add: eval_regex eval_strings)

theorem prepareInput_unsafe_counterexample:
  "length (js ''onclick=1'') \<le> 4000 \<and>
   detectXSSPatterns (prepareInput purify_text (new_InputValidator 4000) (js ''onclick=1''))"
  using detectXSSPatterns_onclick by (simp add: prepareInput_onclick) (simp add: js_def)

text \<open>The scheme prefixes are removed in one pass each, so a prefix wrapped around
  itself leaves the prefix behind.\<close>

lemma prepareInput_nested_scheme:
  "prepareInput purify_text (new_InputValidator 4000) (js ''javajavascript:script:x'')
     = js ''javascript:x''"
  by (simp add: prepareInput_def new_InputValidator_def sanitizeUserInput_def
        normalizeWhitespace_def purify_text_def eval_strings)

subsection \<open>The error log\<close>

lemma logError_bound:
  "maxLogSize h = 100 \<Longrightarrow>
     length (errorLog (logError e h)) \<le> 100 \<and> maxLogSize (logError e h) = 100"
  by (simp add: logError_def Let_def)

lemma do_call_bound:
  assumes "maxLogSize h = 100" "length (errorLog h) \<le> 100"
  shows "length (errorLog (do_call c h)) \<le> 100 \<and> maxLogSize (do_call c h) = 100"
proof (cases c)
  case (Pair now call)
  show ?thesis
    using assms logError_bound [OF assms(1)] unfolding Pair
    by (cases call)
       (simp_all add: handleChatError_def handleValidationError_def handleStorageError_def
          handleConnectivityError_def clearErrorLog_def Let_def)
qed

lemma foldl_do_call_bound:
  "maxLogSize h = 100 \<Longrightarrow> length (errorLog h) \<le> 100 \<Longrightarrow>
   maxLogSize (foldl (\<lambda>h c. do_call c h) h calls) = 100 \<and>
   length (errorLog (foldl (\<lambda>h c. do_call c h) h calls)) \<le> 100"
proof (induction calls arbitrary: h)
  case Nil
  then show ?case by simp
next
  case (Cons c calls)
  from do_call_bound [OF Cons.prems, of c] show ?case
    by (simp add: Cons.IH)
qed

text \<open>
  C10. In every execution (any sequence of calls of the handler's methods on a fresh
  handler) the error log holds at most 100 entries, so \<open>getErrorStats\<close> reports a total
  of at most 100 and \<open>exportErrorLog\<close> exports at most 100 records; \<open>logError\<close>, through
  which all four logging methods append, keeps the most recent 100 entries.
\<close>

theorem errorLog_bounded:
  "length (errorLog (run_calls calls)) \<le> 100 \<and>
   total (getErrorStats now (run_calls calls)) \<le> 100 \<and>
   length (exportErrorLog (run_calls calls)) \<le> 100 \<and>
   errorLog (logError e (run_calls calls)) =
     drop (length (errorLog (run_calls calls)) + 1 - 100) (errorLog (run_calls calls) @ [e])"
proof -
  from foldl_do_call_bound [of new_ErrorHandler calls]
  have "maxLogSize (run_calls calls) = 100" "length (errorLog (run_calls calls)) \<le> 100"
    by (simp_all add: run_calls_def new_ErrorHandler_def)
  then show ?thesis
    by (simp add: getErrorStats_def exportErrorLog_def logError_def Let_def)
qed

theorem errorLog_bounded_witness:
  "length (errorLog (run_calls [(0, HandleStorageError (js ''save'')),
                                (1, HandleConnectivityError False)])) \<le> 100"
  using errorLog_bounded [of "[(0, HandleStorageError (js ''save'')),
                               (1, HandleConnectivityError False)]"]
  by blast

subsection \<open>Requests: retries and response validation\<close>

lemma sendMessage_from_run:
  assumes "\<forall>k. a \<le> k \<and> k < n \<longrightarrow> retried (request k)"
    and "n = maxRetries \<or> \<not> retried (request n)"
    and "a \<le> n" "n \<le> maxRetries"
  shows "sendMessage_from maxRetries request a lastError delays =
         \<lparr> result = request n, requests = n, waits = delays @ map backoff_delay [a..<n] \<rparr>"
  using assms
proof (induction maxRetries request a lastError delays rule: sendMessage_from.induct)
  case (1 maxRetries request attempt lastError delays)
  show ?case
  proof (cases "attempt = n")
    case True
    show ?thesis
    proof (cases "retried (request n)")
      case False
      then show ?thesis using True "1.prems"
        by (subst sendMessage_from.simps) (auto simp: retried_def split: sum.splits)
    next
      case r: True
      then have nm: "n = maxRetries" using "1.prems" by blast
      from r obtain e where e: "request n = Inl e" "err_name e \<noteq> js ''AbortError''"
          "\<not> is_client_error e"
        by (auto simp: retried_def split: sum.splits)
      have "sendMessage_from maxRetries request attempt lastError delays
            = sendMessage_from maxRetries request (n + 1) (Some e) delays"
        using True nm e by (subst sendMessage_from.simps) auto
      also have "\<dots> = \<lparr> result = Inl e, requests = n, waits = delays \<rparr>"
        using nm by (subst sendMessage_from.simps) auto
      finally show ?thesis using True e by simp
    qed
  next
    case False
    then have lt: "attempt < n" using "1.prems" by simp
    then have r: "retried (request attempt)" using "1.prems" by simp
    then obtain e where e: "request attempt = Inl e" "err_name e \<noteq> js ''AbortError''"
        "\<not> is_client_error e"
      by (auto simp: retried_def split: sum.splits)
    have step: "sendMessage_from maxRetries request attempt lastError delays
          = sendMessage_from maxRetries request (attempt + 1) (Some e)
              (delays @ [backoff_delay attempt])"
      using lt "1.prems" e by (subst sendMessage_from.simps) auto
    have "sendMessage_from maxRetries request (attempt + 1) (Some e)
              (delays @ [backoff_delay attempt])
          = \<lparr> result = request n, requests = n,
              waits = (delays @ [backoff_delay attempt])
                        @ map backoff_delay [attempt + 1..<n] \<rparr>"
      apply (rule "1.IH"(1) [OF _ e(1)])
      using lt "1.prems" e by auto
    then show ?thesis using step lt by (simp add: upt_conv_Cons)
  qed
qed

lemma backoff_mono: "i \<le> j \<Longrightarrow> backoff_delay i \<le> backoff_delay j"
  unfolding backoff_delay_def
  by (intro min.mono mult_le_mono power_increasing) auto

lemma sorted_backoff: "sorted (map backoff_delay [a..<n])"
proof -
  have "sorted_wrt (\<lambda>x y. backoff_delay x \<le> backoff_delay y) [a..<n]"
    by (rule sorted_wrt_mono_rel [of _ "(\<le>)"]) (simp_all add: backoff_mono)
  then show ?thesis by (simp add: sorted_map)
qed

lemma backoff_cap: "backoff_delay k \<le> 10000"
  by (simp add: backoff_delay_def)

lemma waits_from:
  "\<exists>n. waits (sendMessage_from maxRetries request a lastError delays)
         = delays @ map backoff_delay [a..<n]"
proof (induction maxRetries request a lastError delays rule: sendMessage_from.induct)
  case (1 maxRetries request attempt lastError delays)
  have stop: "\<exists>n. delays = delays @ map backoff_delay [attempt..<n]"
    by (rule exI [of _ attempt]) simp
  show ?case
  proof (cases "attempt \<le> maxRetries \<and> retried (request attempt)")
    case False
    then have "waits (sendMessage_from maxRetries request attempt lastError delays) = delays"
      by (subst sendMessage_from.simps) (auto simp: retried_def split: sum.splits)
    then show ?thesis using stop by simp
  next
    case True
    then obtain e where e: "request attempt = Inl e" "err_name e \<noteq> js ''AbortError''"
        "\<not> is_client_error e"
      by (auto simp: retried_def split: sum.splits)
    show ?thesis
    proof (cases "attempt < maxRetries")
      case lt: True
      have step: "sendMessage_from maxRetries request attempt lastError delays
          = sendMessage_from maxRetries request (attempt + 1) (Some e)
              (delays @ [backoff_delay attempt])"
        using lt e by (subst sendMessage_from.simps) auto
      from "1.IH"(1) [OF _ e(1) e(2) e(3) lt] True
      obtain n where n:
        "waits (sendMessage_from maxRetries request (attempt + 1) (Some e)
                  (delays @ [backoff_delay attempt]))
           = (delays @ [backoff_delay attempt]) @ map backoff_delay [attempt + 1..<n]"
        by auto
      have "(delays @ [backoff_delay attempt]) @ map backoff_delay [attempt + 1..<n]
            = delays @ map backoff_delay [attempt..<max n (attempt + 1)]"
        by (cases "attempt + 1 \<le> n") (simp_all add: upt_conv_Cons max_def)
      then show ?thesis using step n by metis
    next
      case ge: False
      have "sendMessage_from maxRetries request attempt lastError delays
          = sendMessage_from maxRetries request (attempt + 1) (Some e) delays"
        using ge True e by (subst sendMessage_from.simps) auto
      also have "\<dots> = \<lparr> result = Inl e, requests = attempt, waits = delays \<rparr>"
        using ge True by (subst sendMessage_from.simps) auto
      finally show ?thesis using stop by simp
    qed
  qed
qed

lemma waits_sorted_capped:
  "sorted (waits (sendMessage maxRetries request)) \<and>
   (\<forall>d \<in> set (waits (sendMessage maxRetries request)). d \<le> 10000)"
proof -
  obtain n where "waits (sendMessage maxRetries request) = map backoff_delay [1..<n]"
    using waits_from [of maxRetries request 1 None "[]"] by (auto simp: sendMessage_def)
  then show ?thesis using sorted_backoff [of 1 n] backoff_cap by auto
qed

lemma retried_timeout: "retried (makeRequest eng TimedOut)"
  by (simp add: retried_def makeRequest_def makeRequest_catch_def new_Error_def is_client_error_def js_eq_iff)

lemma retried_rejected:
  "err_name e \<noteq> js ''AbortError'' \<Longrightarrow> \<not> is_client_error e \<Longrightarrow> retried (makeRequest eng (Rejected e))"
  by (simp add: retried_def makeRequest_def makeRequest_catch_def new_Error_def is_client_error_def js_eq_iff)

lemma retried_5xx: "500 \<le> status response \<Longrightarrow> retried (makeRequest eng (Responded response))"
  by (simp add: retried_def makeRequest_def makeRequest_catch_def new_Error_def is_client_error_def
        js_eq_iff ok_def split: option.split)

lemma thrown_4xx:
  assumes "400 \<le> status response" "status response < 500"
    and "error_message eng response = Some m" "m \<noteq> js ''Request timeout''"
  shows "makeRequest eng (Responded response)
           = Inl ((new_Error m)\<lparr> err_status := Some (status response) \<rparr>) \<and>
         \<not> retried (makeRequest eng (Responded response))"
  using assms
  by (simp add: retried_def makeRequest_def makeRequest_catch_def new_Error_def is_client_error_def ok_def)

lemma unthrown_4xx:
  assumes "400 \<le> status response" "status response < 500"
    and "error_message eng response = None \<or> error_message eng response = Some (js ''Request timeout'')"
  shows "retried (makeRequest eng (Responded response))"
  using assms
  by (auto simp: retried_def makeRequest_def makeRequest_catch_def new_Error_def is_client_error_def
        ok_def js_eq_iff)

text \<open>
  C3, as amended. \<open>sendMessage\<close> calls \<open>makeRequest\<close> again after every failure that
  is neither an abort nor an error carrying a 4xx status, until \<open>maxRetries\<close> calls
  (3 by default) are made: if the first \<open>n - 1\<close> outcomes are such failures and the
  \<open>n\<close>-th is final (or \<open>n\<close> is \<open>maxRetries\<close>), exactly \<open>n\<close> calls are made, the
  result is the \<open>n\<close>-th outcome and the delays waited are
  \<open>min (1000 * 2 ^ (k - 1)) 10000\<close> milliseconds after the failed attempt \<open>k < n\<close>. The
  delays of any run are in non-decreasing order and at most 10 s. Timeouts, rejected
  fetches (network errors) and responses of status 500 and above are retried. An error
  with a 4xx status ends the loop at once, and so does status 429 (the claim lists 429
  among the retried ones; the guard of the source covers all of 400 to 499).
  \<open>makeRequest\<close> throws such an error for a 4xx response whose server message converts
  to a string other than \<open>Request timeout\<close>. When the message is exactly
  \<open>Request timeout\<close>, or when its conversion to a string throws (so that \<open>new Error\<close>
  throws before the status is attached), the error thrown has no status and the request
  is retried.
\<close>

theorem sendMessage_retry_policy:
  "(1 \<le> n \<and> n \<le> maxRetries \<and> (\<forall>k. 1 \<le> k \<and> k < n \<longrightarrow> retried (request k)) \<and>
      (n = maxRetries \<or> \<not> retried (request n))
    \<longrightarrow> sendMessage maxRetries request =
          \<lparr> result = request n, requests = n, waits = map backoff_delay [1..<n] \<rparr>) \<and>
   sorted (waits (sendMessage maxRetries request)) \<and>
   (\<forall>d \<in> set (waits (sendMessage maxRetries request)). d \<le> 10000) \<and>
   backoff_delay attempt = min (1000 * 2 ^ (attempt - 1)) 10000 \<and>
   retried (makeRequest eng TimedOut) \<and>
   (err_name e \<noteq> js ''AbortError'' \<and> \<not> is_client_error e \<longrightarrow> retried (makeRequest eng (Rejected e))) \<and>
   (500 \<le> status response \<longrightarrow> retried (makeRequest eng (Responded response))) \<and>
   (is_client_error e \<or> err_name e = js ''AbortError'' \<longrightarrow> \<not> retried (Inl e)) \<and>
   (400 \<le> status response \<and> status response < 500 \<and>
    error_message eng response = Some m \<and> m \<noteq> js ''Request timeout''
    \<longrightarrow> makeRequest eng (Responded response)
          = Inl ((new_Error m)\<lparr> err_status := Some (status response) \<rparr>) \<and>
        \<not> retried (makeRequest eng (Responded response))) \<and>
   (400 \<le> status response \<and> status response < 500 \<and>
    (error_message eng response = None \<or>
     error_message eng response = Some (js ''Request timeout''))
    \<longrightarrow> retried (makeRequest eng (Responded response)))"
proof -
  have run: "sendMessage maxRetries request =
          \<lparr> result = request n, requests = n, waits = map backoff_delay [1..<n] \<rparr>"
    if "1 \<le> n" "n \<le> maxRetries" "\<forall>k. 1 \<le> k \<and> k < n \<longrightarrow> retried (request k)"
       "n = maxRetries \<or> \<not> retried (request n)"
    using sendMessage_from_run [OF that(3) that(4) that(1) that(2), of None "[]"]
    by (simp add: sendMessage_def)
  have stop: "\<not> retried (Inl e)" if "is_client_error e \<or> err_name e = js ''AbortError''"
    using that by (auto simp: retried_def)
  have delay: "backoff_delay attempt = min (1000 * 2 ^ (attempt - 1)) 10000"
    by (simp add: backoff_delay_def)
  show ?thesis
    using run waits_sorted_capped [of maxRetries request] retried_timeout [of eng]
      retried_rejected [of e eng] retried_5xx [of response eng] stop delay
      thrown_4xx [of response eng m] unthrown_4xx [of response eng]
    by blast
qed

lemma error_message_failure:
  "error_message eng \<lparr> status = s, statusText = [], body = Inl [] \<rparr>
     = Some (js ''Server error: '' @ decimal s @ js '' '')"
  by (simp add: error_message_def parseErrorResponse_def or_else_def) (simp add: js_def)

lemma http_failure_404:
  "http_failure 404 = Inl ((new_Error (js ''Server error: 404 '')) \<lparr> err_status := Some 404 \<rparr>)"
  by (simp add: http_failure_def makeRequest_def ok_def error_message_failure
        makeRequest_catch_def new_Error_def js_eq_iff decimal.simps)
     (simp add: js_def)

lemma error_message_unconvertible: "error_message eng unconvertible_400 = None"
  by (simp add: error_message_def unconvertible_400_def parseErrorResponse_def or_else_def js_eq_iff)

theorem sendMessage_retry_policy_witness:
  "sendMessage 3 (every_attempt (http_failure 503)) =
     \<lparr> result = http_failure 503, requests = 3, waits = [1000, 2000] \<rparr> \<and>
   retried (http_failure 503) \<and>
   \<not> retried (http_failure 404) \<and>
   retried (makeRequest test_engine (Responded unconvertible_400))"
proof -
  note policy = sendMessage_retry_policy
    [where n = 3 and maxRetries = 3 and request = "every_attempt (http_failure 503)"
       and eng = test_engine
       and response = "\<lparr> status = 503, statusText = [], body = Inl [] \<rparr>"]
  note policy' = sendMessage_retry_policy
    [where eng = test_engine
       and response = "\<lparr> status = 404, statusText = [], body = Inl [] \<rparr>"
       and m = "js ''Server error: '' @ decimal 404 @ js '' ''"]
  note policy'' = sendMessage_retry_policy
    [where eng = test_engine and response = unconvertible_400]
  have r: "retried (http_failure 503)"
    using policy by (simp add: http_failure_def)
  have h: "(1::nat) \<le> 3 \<and> (3::nat) \<le> 3 \<and>
      (\<forall>k. 1 \<le> k \<and> k < 3 \<longrightarrow> retried (every_attempt (http_failure 503) k)) \<and>
      ((3::nat) = 3 \<or> \<not> retried (every_attempt (http_failure 503) 3))"
    by (simp add: every_attempt_def r)
  have "[1..<3] = [1, 2::nat]" by (simp add: upt_conv_Cons)
  then have run: "sendMessage 3 (every_attempt (http_failure 503)) =
     \<lparr> result = http_failure 503, requests = 3, waits = [1000, 2000] \<rparr>"
    using h policy by (simp add: every_attempt_def backoff_delay_def)
  have "js ''Server error: '' @ decimal 404 @ js '' '' \<noteq> js ''Request timeout''"
    by (simp add: js_def)
  with policy' have "\<not> retried (http_failure 404)"
    unfolding http_failure_def
    by (simp add: error_message_failure retried_def is_client_error_def)
  moreover have "status unconvertible_400 = 400" by (simp add: unconvertible_400_def)
  with policy'' have "retried (makeRequest test_engine (Responded unconvertible_400))"
    by (simp add: error_message_unconvertible)
  ultimately show ?thesis using run r by simp
qed

text \<open>The response \<open>unconvertible_400\<close> has a 4xx status and is requested three times:
  \<open>new Error\<close> throws on the server's message, and the \<open>TypeError\<close> has no status.\<close>

lemma unconvertible_400_retried:
  "sendMessage 3 (every_attempt (makeRequest test_engine (Responded unconvertible_400)))
     = \<lparr> result = Inl \<lparr> err_class = TypeError, err_name = js ''TypeError'',
                         err_message = js ''Cannot convert object to primitive value'',
                         err_status = None \<rparr>,
         requests = 3, waits = [1000, 2000] \<rparr>"
proof -
  have m: "makeRequest test_engine (Responded unconvertible_400)
      = Inl \<lparr> err_class = TypeError, err_name = js ''TypeError'',
              err_message = js ''Cannot convert object to primitive value'',
              err_status = None \<rparr>"
    by (simp add: makeRequest_def ok_def error_message_unconvertible makeRequest_catch_def
          test_engine_def eval_strings js_eq_iff)
       (simp add: unconvertible_400_def)
  have r: "retried (makeRequest test_engine (Responded unconvertible_400))"
    unfolding m by (simp add: retried_def is_client_error_def js_eq_iff)
  have "[1..<3] = [1, 2::nat]" by (simp add: upt_conv_Cons)
  with sendMessage_from_run
    [where a = 1 and n = 3 and maxRetries = 3 and lastError = None and delays = "[]"
       and request = "every_attempt (makeRequest test_engine (Responded unconvertible_400))"]
  show ?thesis
    using r by (simp add: sendMessage_def every_attempt_def backoff_delay_def m)
qed

lemma http_failure_429:
  "http_failure 429 = Inl ((new_Error (js ''Server error: 429 '')) \<lparr> err_status := Some 429 \<rparr>)"
  by (simp add: http_failure_def makeRequest_def ok_def error_message_failure
     makeRequest_catch_def new_Error_def js_eq_iff decimal.simps) (simp add: js_def)

text \<open>The claim as stated fails at status 429: with three attempts allowed, one request is
  made and nothing is waited for.\<close>

theorem sendMessage_429_counterexample:
  "http_failure 429 = Inl ((new_Error (js ''Server error: 429 '')) \<lparr> err_status := Some 429 \<rparr>) \<and>
   sendMessage 3 (every_attempt (http_failure 429)) =
     \<lparr> result = http_failure 429, requests = 1, waits = [] \<rparr>"
  apply (rule conjI [OF http_failure_429])
  apply (simp add: sendMessage_def)
  apply (subst sendMessage_from.simps)
  apply (simp add: every_attempt_def http_failure_429)
  apply (simp add: is_client_error_def new_Error_def js_eq_iff)
  done

lemma isValidResponse_iff:
  "isValidResponse data \<longleftrightarrow>
     (\<exists>r. get_prop data (js ''response'') = Some (JStr r)) \<and>
     (\<exists>q. get_prop data (js ''requestId'') = Some (JStr q)) \<and>
     (\<exists>p. get_prop data (js ''processingTime'') = Some (JNum p)) \<and>
     (get_prop data (js ''metadata'') = Some JNull \<or>
      (\<exists>xs. get_prop data (js ''metadata'') = Some (JArr xs)) \<or>
      (\<exists>kvs. get_prop data (js ''metadata'') = Some (JObj kvs)))"
proof (cases data)
  case (JObj kvs)
  then show ?thesis
    by (simp add: isValidResponse_def typeof_string typeof_number typeof_object)
qed (simp_all add: isValidResponse_def js_eq_iff)

lemma invalid_response_class:
  "createErrorState now (ErrorObj (new_Error (js ''Invalid response format from server''))) =
     \<lparr> es_type = Network, es_message = js ''Invalid response format from server'', es_code = None,
       es_timestamp = now, es_retryable = True \<rparr>"
  by (simp add: createErrorState_def new_Error_def js_def)

lemma makeRequest_invalid:
  "ok response \<Longrightarrow> body response = Inr data \<Longrightarrow> \<not> isValidResponse data \<Longrightarrow>
   makeRequest eng (Responded response) = Inl (new_Error (js ''Invalid response format from server''))"
  by (simp add: makeRequest_def makeRequest_catch_def new_Error_def js_eq_iff)

lemma makeRequest_valid:
  "ok response \<Longrightarrow> body response = Inr data \<Longrightarrow> isValidResponse data \<Longrightarrow>
   makeRequest eng (Responded response) = Inr data"
  by (simp add: makeRequest_def)

text \<open>
  C7, as amended. A response body is valid exactly when it is an object whose
  \<open>response\<close> and \<open>requestId\<close> are strings, whose \<open>processingTime\<close> is a number and
  whose \<open>metadata\<close> has the \<open>typeof\<close> \<open>object\<close>: an object, an array or \<open>null\<close>. So a
  body that lacks one of the four fields, or holds one of another type, is not valid,
  while \<open>metadata: null\<close> passes. \<open>makeRequest\<close> returns a successful response with a
  valid body and rejects one with any other body by throwing
  \<open>Invalid response format from server\<close>. The error carries no status:
  \<open>sendMessage\<close> retries it, and \<open>createErrorState\<close> classifies it as a retryable
  \<open>network\<close> failure, not as a \<open>server\<close> failure as the claim says.
\<close>

theorem invalid_response_rejected:
  "(isValidResponse data \<longleftrightarrow>
     (\<exists>r. get_prop data (js ''response'') = Some (JStr r)) \<and>
     (\<exists>q. get_prop data (js ''requestId'') = Some (JStr q)) \<and>
     (\<exists>p. get_prop data (js ''processingTime'') = Some (JNum p)) \<and>
     (get_prop data (js ''metadata'') = Some JNull \<or>
      (\<exists>xs. get_prop data (js ''metadata'') = Some (JArr xs)) \<or>
      (\<exists>kvs. get_prop data (js ''metadata'') = Some (JObj kvs)))) \<and>
   (ok response \<and> body response = Inr data \<and> isValidResponse data \<longrightarrow>
      makeRequest eng (Responded response) = Inr data) \<and>
   (ok response \<and> body response = Inr data \<and> \<not> isValidResponse data \<longrightarrow>
      makeRequest eng (Responded response)
        = Inl (new_Error (js ''Invalid response format from server'')) \<and>
      retried (makeRequest eng (Responded response)) \<and>
      es_type (createErrorState now (ErrorObj (new_Error (js ''Invalid response format from server''))))
        = Network \<and>
      es_retryable (createErrorState now (ErrorObj (new_Error (js ''Invalid response format from server'')))))"
proof (intro conjI impI)
  assume a: "ok response \<and> body response = Inr data \<and> \<not> isValidResponse data"
  then show m: "makeRequest eng (Responded response)
        = Inl (new_Error (js ''Invalid response format from server''))"
    by (simp add: makeRequest_invalid)
  show "retried (makeRequest eng (Responded response))"
    unfolding m by (simp add: retried_def new_Error_def is_client_error_def js_eq_iff)
  show "es_type (createErrorState now (ErrorObj (new_Error (js ''Invalid response format from server''))))
        = Network"
    by (simp add: invalid_response_class)
  show "es_retryable (createErrorState now (ErrorObj (new_Error (js ''Invalid response format from server''))))"
    by (simp add: invalid_response_class)
next
  assume "ok response \<and> body response = Inr data \<and> isValidResponse data"
  then show "makeRequest eng (Responded response) = Inr data"
    by (simp add: makeRequest_valid)
qed (rule isValidResponse_iff)

theorem invalid_response_rejected_witness:
  "makeRequest test_engine (Responded \<lparr> status = 200, statusText = js ''OK'', body = Inr wrong_type_body \<rparr>)
     = Inl (new_Error (js ''Invalid response format from server'')) \<and>
   makeRequest test_engine (Responded \<lparr> status = 200, statusText = js ''OK'', body = Inr null_metadata_body \<rparr>)
     = Inr null_metadata_body"
proof -
  have o: "ok \<lparr> status = 200, statusText = js ''OK'', body = b \<rparr>" for b
    by (simp add: ok_def)
  have w: "get_prop wrong_type_body (js ''processingTime'') = Some (JStr (js ''5''))"
    by (simp add: wrong_type_body_def js_eq_iff)
  have n: "get_prop null_metadata_body (js ''response'') = Some (JStr (js ''hello''))"
     "get_prop null_metadata_body (js ''requestId'') = Some (JStr (js ''r1''))"
     "get_prop null_metadata_body (js ''processingTime'') = Some (JNum 5)"
     "get_prop null_metadata_body (js ''metadata'') = Some JNull"
    by (simp_all add: null_metadata_body_def js_eq_iff)
  note a = invalid_response_rejected
    [where data = wrong_type_body and eng = test_engine
       and response = "\<lparr> status = 200, statusText = js ''OK'', body = Inr wrong_type_body \<rparr>"]
  note b = invalid_response_rejected
    [where data = null_metadata_body and eng = test_engine
       and response = "\<lparr> status = 200, statusText = js ''OK'', body = Inr null_metadata_body \<rparr>"]
  from a have "\<not> isValidResponse wrong_type_body" by (simp add: w)
  with a o have 1: "makeRequest test_engine (Responded \<lparr> status = 200, statusText = js ''OK'', body = Inr wrong_type_body \<rparr>)
     = Inl (new_Error (js ''Invalid response format from server''))"
    by simp
  from b have "isValidResponse null_metadata_body" by (simp add: n)
  with b o have 2: "makeRequest test_engine (Responded \<lparr> status = 200, statusText = js ''OK'', body = Inr null_metadata_body \<rparr>)
     = Inr null_metadata_body"
    by simp
  from 1 2 show ?thesis by simp
qed

text \<open>The claim as stated fails for the body \<open>{}\<close>: it is rejected, and the kind of the
  failure is not \<open>server\<close>.\<close>

theorem invalid_response_server_counterexample:
  "makeRequest test_engine (Responded \<lparr> status = 200, statusText = js ''OK'', body = Inr (JObj []) \<rparr>)
     = Inl (new_Error (js ''Invalid response format from server'')) \<and>
   es_type (createErrorState 0 (ErrorObj (new_Error (js ''Invalid response format from server''))))
     \<noteq> Server"
proof
  show "makeRequest test_engine (Responded \<lparr> status = 200, statusText = js ''OK'', body = Inr (JObj []) \<rparr>)
     = Inl (new_Error (js ''Invalid response format from server''))"
    by (simp add: makeRequest_def ok_def isValidResponse_def makeRequest_catch_def new_Error_def js_eq_iff)
  show "es_type (createErrorState 0 (ErrorObj (new_Error (js ''Invalid response format from server''))))
     \<noteq> Server"
    by (simp add: invalid_response_class)
qed

subsection \<open>Storage: loading, saving\<close>

lemma has_key_get: "has_key data k \<Longrightarrow> \<exists>y. get_prop data k = Some y"
  by (cases data) (auto simp: has_key_def weak_map_of_SomeI dest!: weak_map_of_SomeI)

lemma truthy_Some: "truthy x \<Longrightarrow> \<exists>y. x = Some y"
  by (cases x) auto

lemma message_ok_needs:
  assumes "message_ok m"
  shows "get_prop m (js ''id'') \<noteq> None \<and> get_prop m (js ''timestamp'') \<noteq> None \<and>
         get_prop m (js ''role'') \<noteq> None \<and> (\<exists>s. get_prop m (js ''content'') = Some (JStr s))"
  using assms by (auto simp: message_ok_def typeof_string dest: truthy_Some split: if_splits)

lemma validateStorageData_needs:
  assumes "validateStorageData data"
  shows "get_prop data (js ''version'') \<noteq> None \<and> get_prop data (js ''sessionId'') \<noteq> None \<and>
         (\<exists>ms. get_prop data (js ''messages'') = Some (JArr ms) \<and> (\<forall>m \<in> set ms. message_ok m))"
  using assms
  by (auto simp: validateStorageData_def list_all_iff dest: has_key_get
           split: if_splits option.splits json.splits)

text \<open>
  C6, as amended. \<open>loadChat\<close> returns \<open>null\<close> and leaves the storage alone when
  nothing is stored. When the stored text parses to a malformed record (no \<open>version\<close>,
  \<open>sessionId\<close> or \<open>messages\<close>, messages that are not an array, or a message without
  \<open>id\<close>, \<open>timestamp\<close>, \<open>role\<close> or a string as \<open>content\<close>) it removes the record and
  returns \<open>null\<close>; it does the same when the stored text is not JSON. The empty text is
  the exception: \<open>if (!stored)\<close> takes it for no record, so \<open>null\<close> is returned and the
  empty text stays in the storage.
\<close>

theorem loadChat_fail_closed:
  "(item ls = None \<longrightarrow> loadChat eng now uuid reduced_motion ls = (None, ls)) \<and>
   (item ls = Some (Json data) \<and>
      (get_prop data (js ''version'') = None \<or> get_prop data (js ''sessionId'') = None \<or>
       get_prop data (js ''messages'') = None \<or>
       (\<forall>ms. get_prop data (js ''messages'') \<noteq> Some (JArr ms)) \<or>
       (\<exists>ms m. get_prop data (js ''messages'') = Some (JArr ms) \<and> m \<in> set ms \<and>
          (get_prop m (js ''id'') = None \<or> get_prop m (js ''timestamp'') = None \<or>
           get_prop m (js ''role'') = None \<or> (\<forall>s. get_prop m (js ''content'') \<noteq> Some (JStr s)))))
    \<longrightarrow> loadChat eng now uuid reduced_motion ls = (None, ls\<lparr> item := None \<rparr>)) \<and>
   (item ls = Some NotJson
    \<longrightarrow> loadChat eng now uuid reduced_motion ls = (None, ls\<lparr> item := None \<rparr>)) \<and>
   (item ls = Some EmptyText
    \<longrightarrow> loadChat eng now uuid reduced_motion ls = (None, ls))"
proof (intro conjI impI)
  assume "item ls = None"
  then show "loadChat eng now uuid reduced_motion ls = (None, ls)"
    by (simp add: loadChat_def)
next
  assume a: "item ls = Some (Json data) \<and>
      (get_prop data (js ''version'') = None \<or> get_prop data (js ''sessionId'') = None \<or>
       get_prop data (js ''messages'') = None \<or>
       (\<forall>ms. get_prop data (js ''messages'') \<noteq> Some (JArr ms)) \<or>
       (\<exists>ms m. get_prop data (js ''messages'') = Some (JArr ms) \<and> m \<in> set ms \<and>
          (get_prop m (js ''id'') = None \<or> get_prop m (js ''timestamp'') = None \<or>
           get_prop m (js ''role'') = None \<or> (\<forall>s. get_prop m (js ''content'') \<noteq> Some (JStr s)))))"
  have "\<not> validateStorageData data"
  proof
    assume v: "validateStorageData data"
    from validateStorageData_needs [OF v] obtain ms where
      ms: "get_prop data (js ''version'') \<noteq> None" "get_prop data (js ''sessionId'') \<noteq> None"
          "get_prop data (js ''messages'') = Some (JArr ms)" "\<forall>m \<in> set ms. message_ok m"
      by blast
    with a obtain m where m: "m \<in> set ms" "get_prop m (js ''id'') = None \<or> get_prop m (js ''timestamp'') = None \<or>
           get_prop m (js ''role'') = None \<or> (\<forall>s. get_prop m (js ''content'') \<noteq> Some (JStr s))"
      by auto
    from ms(4) m(1) have "message_ok m" by simp
    from message_ok_needs [OF this] m(2) show False by auto
  qed
  with a show "loadChat eng now uuid reduced_motion ls = (None, ls\<lparr> item := None \<rparr>)"
    by (simp add: loadChat_def clearChat_def removeItem_def)
next
  assume "item ls = Some NotJson"
  then show "loadChat eng now uuid reduced_motion ls = (None, ls\<lparr> item := None \<rparr>)"
    by (simp add: loadChat_def clearChat_def removeItem_def)
next
  assume "item ls = Some EmptyText"
  then show "loadChat eng now uuid reduced_motion ls = (None, ls)"
    by (simp add: loadChat_def)
qed

theorem loadChat_fail_closed_witness:
  "loadChat test_engine 2000 (js ''u1'') False
     \<lparr> item = Some (Json (JObj [(js ''version'', JStr (js ''1.0'')),
                                  (js ''sessionId'', JStr (js ''s1'')),
                                  (js ''messages'', JArr [JObj [(js ''id'', JStr (js ''m1''))]])])),
       setItem_throws = False \<rparr>
   = (None, \<lparr> item = None, setItem_throws = False \<rparr>) \<and>
   loadChat test_engine 2000 (js ''u1'') False empty_storage = (None, empty_storage) \<and>
   loadChat test_engine 2000 (js ''u1'') False \<lparr> item = Some NotJson, setItem_throws = False \<rparr>
   = (None, \<lparr> item = None, setItem_throws = False \<rparr>) \<and>
   loadChat test_engine 2000 (js ''u1'') False \<lparr> item = Some EmptyText, setItem_throws = False \<rparr>
   = (None, \<lparr> item = Some EmptyText, setItem_throws = False \<rparr>)"
  using loadChat_fail_closed [where ls = empty_storage and eng = test_engine and now = 2000
      and uuid = "js ''u1''" and reduced_motion = False]
    loadChat_fail_closed [where ls = "\<lparr> item = Some NotJson, setItem_throws = False \<rparr>"
      and eng = test_engine and now = 2000 and uuid = "js ''u1''" and reduced_motion = False]
    loadChat_fail_closed [where ls = "\<lparr> item = Some EmptyText, setItem_throws = False \<rparr>"
      and eng = test_engine and now = 2000 and uuid = "js ''u1''" and reduced_motion = False]
    loadChat_fail_closed
    [where ls = "\<lparr> item = Some (Json (JObj [(js ''version'', JStr (js ''1.0'')),
                                  (js ''sessionId'', JStr (js ''s1'')),
                                  (js ''messages'', JArr [JObj [(js ''id'', JStr (js ''m1''))]])])),
          setItem_throws = False \<rparr>" and eng = test_engine and now = 2000 and uuid = "js ''u1''"
       and reduced_motion = False
       and data = "JObj [(js ''version'', JStr (js ''1.0'')), (js ''sessionId'', JStr (js ''s1'')),
               (js ''messages'', JArr [JObj [(js ''id'', JStr (js ''m1''))]])]"]
  by (simp add: js_eq_iff empty_storage_def)

text \<open>The claim as stated fails for the empty text: it is not a record, \<open>null\<close> is
  returned, and the storage is not cleared.\<close>

theorem loadChat_empty_text_counterexample:
  "loadChat test_engine 2000 (js ''u1'') False \<lparr> item = Some EmptyText, setItem_throws = False \<rparr>
     = (None, \<lparr> item = Some EmptyText, setItem_throws = False \<rparr>) \<and>
   item (snd (loadChat test_engine 2000 (js ''u1'') False
                \<lparr> item = Some EmptyText, setItem_throws = False \<rparr>)) \<noteq> None"
  by (simp add: loadChat_def)

lemma sanitize_message_json:
  "sanitize_message purify (message_json m) = Some (message_json (sanitized purify m))"
  by (simp add: sanitize_message_def message_json_def sanitized_def sanitizeUserInput_any_def js_eq_iff)

lemma those_sanitize:
  "those (map (sanitize_message purify \<circ> message_json) ms) = Some (map (\<lambda>m. message_json (sanitized purify m)) ms)"
  by (induction ms) (simp_all add: sanitize_message_json)

lemma sanitize_stored:
  "sanitizeStorageData purify (storedChatData now S ls) =
     Some (JObj [(js ''version'', JStr currentVersion),
           (js ''sessionId'', JStr (sessionId S)),
           (js ''created'',
              or_value (case getStoredData ls of
                          None \<Rightarrow> None
                        | Some JNull \<Rightarrow> None
                        | Some stored \<Rightarrow> get_prop stored (js ''created''))
                       (JNum (of_int now))),
           (js ''lastModified'', JNum (of_int now)),
           (js ''messages'', JArr (map (\<lambda>m. message_json (sanitized purify m)) (messages S))),
           (js ''userPreferences'', userPreferences S),
           (js ''metadata'',
              JObj [(js ''totalMessages'', JNum (of_nat (length (messages S)))),
                    (js ''totalCharacters'',
                       JNum (of_nat (sum_list (map (\<lambda>msg. length (content msg))
                                                   (messages S))))),
                    (js ''averageResponseTime'',
                       JNum (calculateAverageResponseTime (messages S)))])])"
  by (simp add: sanitizeStorageData_def storedChatData_def js_eq_iff those_sanitize)

lemma role_name_nonempty: "role_name r \<noteq> []"
  by (cases r) (simp_all add: role_name_def js_def)

lemma message_ok_json: "msg_id m \<noteq> [] \<Longrightarrow> timestamp m \<noteq> 0 \<Longrightarrow> message_ok (message_json m)"
  by (simp add: message_ok_def message_json_def js_eq_iff role_name_nonempty)


lemma validate_stored:
  assumes "\<forall>m \<in> set ms. message_ok m"
  shows "validateStorageData (JObj [(js ''version'', v), (js ''sessionId'', sid), (js ''created'', c),
           (js ''lastModified'', lm), (js ''messages'', JArr ms), (js ''userPreferences'', up),
           (js ''metadata'', md)])"
  using assms by (simp add: validateStorageData_def has_key_def js_eq_iff list_all_iff)

lemma sanitized_ok:
  "msg_id m \<noteq> [] \<Longrightarrow> timestamp m \<noteq> 0 \<Longrightarrow> message_ok (message_json (sanitized purify m))"
  by (rule message_ok_json) (simp_all add: sanitized_def)

lemma migrate_current:
  "get_prop d (js ''version'') = Some (JStr currentVersion) \<Longrightarrow>
   migrateData eng now uuid reduced_motion d ls = Some (d, ls)"
  by (auto simp: migrateData_def currentVersion_def js_def)

lemma sanitize_stored_facts:
  assumes "\<forall>m \<in> set (messages S). msg_id m \<noteq> [] \<and> timestamp m \<noteq> 0"
  shows "\<exists>d. sanitizeStorageData purify (storedChatData now S ls) = Some d \<and>
           validateStorageData d \<and>
           get_prop d (js ''version'') = Some (JStr currentVersion) \<and>
           get_prop d (js ''messages'')
             = Some (JArr (map (\<lambda>m. message_json (sanitized purify m)) (messages S)))"
  unfolding sanitize_stored using assms
  by (simp add: validate_stored sanitized_ok js_eq_iff)

lemma content_length_json: "content_length (message_json m) = Some (length (content m))"
  by (simp add: content_length_def message_json_def js_eq_iff)

lemma those_content_length:
  "those (map (content_length \<circ> (\<lambda>m. message_json (f m))) ms)
     = Some (map (\<lambda>m. length (content (f m))) ms)"
  by (induction ms) (simp_all add: content_length_json)

text \<open>\<open>cleanOldMessages\<close> is defined on every record that \<open>saveChat\<close> passes to it.\<close>

lemma cleanOldMessages_sanitized:
  "sanitizeStorageData purify (storedChatData now S ls) = Some d \<Longrightarrow> cleanOldMessages d \<noteq> None"
  unfolding sanitize_stored
  by (auto simp: cleanOldMessages_def js_eq_iff Let_def drop_map those_content_length)

lemma save_then_load:
  assumes w: "\<not> setItem_throws ls"
    and fit: "\<forall>d. sanitizeStorageData purify (storedChatData now S ls) = Some d
                 \<longrightarrow> serialized_length d \<le> maxStorageSize"
    and ok: "\<forall>m \<in> set (messages S). msg_id m \<noteq> [] \<and> timestamp m \<noteq> 0"
  shows "fst (saveChat purify serialized_length now S ls) \<and>
         map_option loaded_messages
           (fst (loadChat eng now' uuid reduced_motion
                   (snd (saveChat purify serialized_length now S ls))))
         = Some (JArr (map (\<lambda>m. message_json (m\<lparr> content := sanitizeUserInput purify (content m) \<rparr>))
                          (messages S)))"
proof -
  from sanitize_stored_facts [OF ok, of purify now ls] obtain d where
    d: "sanitizeStorageData purify (storedChatData now S ls) = Some d"
    and valid: "validateStorageData d"
    and ver: "get_prop d (js ''version'') = Some (JStr currentVersion)"
    and msgs: "get_prop d (js ''messages'')
             = Some (JArr (map (\<lambda>m. message_json (sanitized purify m)) (messages S)))"
    by blast
  from fit d have "serialized_length d \<le> maxStorageSize" by blast
  with d w have save: "saveChat purify serialized_length now S ls = (True, ls\<lparr> item := Some (Json d) \<rparr>)"
    by (simp add: saveChat_def setItem_def)
  show ?thesis
    unfolding save
    by (simp add: loadChat_def valid migrate_current [OF ver] msgs or_value_def sanitized_def)
qed

text \<open>
  C4, as amended. \<open>saveChat\<close> sanitizes the content of every message before it writes
  (\<open>sanitizeStorageData\<close>), so saving then loading returns the messages in their order,
  with their ids, timestamps, roles and metadata, and with every content replaced by
  \<open>sanitizeUserInput\<close> of it: trimmed, control characters (line breaks among them),
  scheme prefixes and markup removed. This holds when the write succeeds, the serialised
  record stays within the 5 MB cap, and every message has a non-empty id and a non-zero
  timestamp (the validation on load rejects the record otherwise). The messages come
  back unchanged only where sanitizing leaves their contents as they are.
\<close>

theorem save_load_messages:
  "\<not> setItem_throws ls \<and>
   (\<forall>d. sanitizeStorageData purify (storedChatData now S ls) = Some d
          \<longrightarrow> serialized_length d \<le> maxStorageSize) \<and>
   (\<forall>m \<in> set (messages S). msg_id m \<noteq> [] \<and> timestamp m \<noteq> 0)
   \<longrightarrow>
   fst (saveChat purify serialized_length now S ls) \<and>
   map_option loaded_messages
     (fst (loadChat eng now' uuid reduced_motion
             (snd (saveChat purify serialized_length now S ls))))
   = Some (JArr (map (\<lambda>m. message_json (m\<lparr> content := sanitizeUserInput purify (content m) \<rparr>))
                    (messages S)))"
  using save_then_load [where ls = ls and purify = purify and now = now and S = S
      and serialized_length = serialized_length and now' = now' and uuid = uuid
      and reduced_motion = reduced_motion and eng = eng]
  by blast

lemma sanitize_two_lines: "sanitizeUserInput purify_text (js ''a'' @ 10 # js ''b'') = js ''ab''"
  by (simp add: sanitizeUserInput_def purify_text_def eval_strings)

theorem save_load_messages_witness:
  "fst (saveChat purify_text small_length 1000 two_line_session empty_storage) \<and>
   map_option loaded_messages
     (fst (loadChat test_engine 2000 (js ''u2'') False
            (snd (saveChat purify_text small_length 1000 two_line_session empty_storage))))
   = Some (JArr [message_json \<lparr> msg_id = js ''m1'', timestamp = 1000, role = Assistant,
                                content = js ''ab'', metadata = None \<rparr>])"
proof -
  have "\<not> setItem_throws empty_storage \<and>
        (\<forall>d. sanitizeStorageData purify_text (storedChatData 1000 two_line_session empty_storage)
                = Some d \<longrightarrow> small_length d \<le> maxStorageSize) \<and>
        (\<forall>m \<in> set (messages two_line_session). msg_id m \<noteq> [] \<and> timestamp m \<noteq> 0)"
    by (simp add: empty_storage_def small_length_def two_line_session_def js_def)
  with save_load_messages [where ls = empty_storage and purify = purify_text and now = 1000
         and S = two_line_session and serialized_length = small_length and eng = test_engine
         and now' = 2000 and uuid = "js ''u2''" and reduced_motion = False]
  show ?thesis
    by (simp add: two_line_session_def sanitize_two_lines)
qed

text \<open>The claim as stated fails on a message of two lines: the line break is a control
  character, and the message that comes back is not the message saved.\<close>

theorem save_load_messages_counterexample:
  "small_length (JObj []) \<le> maxStorageSize \<and>
   map_option loaded_messages
     (fst (loadChat test_engine 2000 (js ''u2'') False
            (snd (saveChat purify_text small_length 1000 two_line_session empty_storage))))
   \<noteq> Some (JArr (map message_json (messages two_line_session)))"
proof -
  have "\<not> setItem_throws empty_storage"
    and "\<forall>d. sanitizeStorageData purify_text (storedChatData 1000 two_line_session empty_storage)
                = Some d \<longrightarrow> small_length d \<le> maxStorageSize"
    and "\<forall>m \<in> set (messages two_line_session). msg_id m \<noteq> [] \<and> timestamp m \<noteq> 0"
    by (simp_all add: empty_storage_def small_length_def two_line_session_def js_def)
  from save_then_load [OF this, where eng = test_engine and now' = 2000 and uuid = "js ''u2''"
         and reduced_motion = False]
  have loaded:
    "map_option loaded_messages
       (fst (loadChat test_engine 2000 (js ''u2'') False
              (snd (saveChat purify_text small_length 1000 two_line_session empty_storage))))
     = Some (JArr (map (\<lambda>m. message_json
                          (m\<lparr> content := sanitizeUserInput purify_text (content m) \<rparr>))
                      (messages two_line_session)))"
    by (rule conjunct2)
  have differ:
    "JArr (map (\<lambda>m. message_json (m\<lparr> content := sanitizeUserInput purify_text (content m) \<rparr>))
             (messages two_line_session))
     \<noteq> JArr (map message_json (messages two_line_session))"
    by (simp add: two_line_session_def sanitize_two_lines message_json_def) (simp add: js_def)
  show ?thesis
    unfolding loaded using differ by (simp add: small_length_def)
qed

subsection \<open>Storage: migration\<close>

















subsection \<open>The container: submitting, clearing\<close>



lemma settled_response:
  "displayed (handleUserMessage_settled rt uuid now (Inr response) c)
     = displayed c @ [assistantMessage uuid now response] \<and>
   messages (chatState (handleUserMessage_settled rt uuid now (Inr response) c))
     = messages (chatState c) @ [assistantMessage uuid now response] \<and>
   \<not> isLoading (handleUserMessage_settled rt uuid now (Inr response) c) \<and>
   chatAPI (handleUserMessage_settled rt uuid now (Inr response) c) = chatAPI c"
  by (simp add: handleUserMessage_settled_def addMessage_def Let_def)



lemma trim_first: "trim (js ''first'') = js ''first''"
  by (simp add: eval_strings)




lemma clear_state:
  "chatState (handleClearChat rt True session_uuid message_uuid now c)
     = \<lparr> messages = [welcomeMessage message_uuid now], sessionId = session_uuid,
         lastActivity = now, version = currentVersion,
         userPreferences = getDefaultPreferences (rt_reduced_motion rt) \<rparr> \<and>
   displayed (handleClearChat rt True session_uuid message_uuid now c)
     = [welcomeMessage message_uuid now] \<and>
   storage (handleClearChat rt True session_uuid message_uuid now c)
     = snd (saveChat (rt_purify rt) (rt_serialized_length rt) now
              \<lparr> messages = [welcomeMessage message_uuid now], sessionId = session_uuid,
                lastActivity = now, version = currentVersion,
                userPreferences = getDefaultPreferences (rt_reduced_motion rt) \<rparr>
              (clearChat (storage c)))"
  by (simp add: handleClearChat_def showWelcomeMessage_def addMessage_def createInitialState_def Let_def)

lemma clear_keeps_request:
  "isLoading (handleClearChat rt True session_uuid message_uuid now c) = isLoading c \<and>
   chatAPI (handleClearChat rt True session_uuid message_uuid now c) = chatAPI c"
  by (simp add: handleClearChat_def showWelcomeMessage_def addMessage_def Let_def)




lemma clear_while_loading:
  assumes "isLoading c"
  shows "handleUserMessage_start rt uuid' now' message
           (handleClearChat rt True session_uuid message_uuid now c)
         = handleClearChat rt True session_uuid message_uuid now c \<and>
         messages (chatState (handleUserMessage_settled rt uuid'' now'' (Inr response)
                     (handleClearChat rt True session_uuid message_uuid now c)))
           = [welcomeMessage message_uuid now, assistantMessage uuid'' now'' response]"
  using assms clear_keeps_request [of rt session_uuid message_uuid now c]
    clear_state [of rt session_uuid message_uuid now c]
    settled_response [of rt uuid'' now'' response
       "handleClearChat rt True session_uuid message_uuid now c"]
  by (simp add: handleUserMessage_start_def)




text \<open>A clear while a request is outstanding: the container stays loading, so the next
  submit is ignored, and the response to the request of the cleared session becomes a
  message of the new session.\<close>

lemma clear_during_request:
  "isLoading cleared_while_loading \<and>
   handleUserMessage_start test_runtime (js ''id2'') 2001 (js ''hi'') cleared_while_loading
     = cleared_while_loading \<and>
   sessionId (chatState cleared_while_loading) = js ''s2'' \<and>
   map req_sessionId (api_calls (chatAPI cleared_while_loading)) = [js ''s1'']"
proof -
  let ?c = "new_Container 3 1000 (js ''s1'') test_runtime empty_storage"
  let ?l = "handleUserMessage_start test_runtime (js ''id1'') 1001 (js ''first'') ?c"
  have n: "\<not> isLoading ?c" "trim (js ''first'') \<noteq> []"
    by (simp_all add: new_Container_def trim_first) (simp add: js_def)
  have l: "isLoading ?l" "map req_sessionId (api_calls (chatAPI ?l)) = [js ''s1'']"
    using n
    by (simp_all add: handleUserMessage_start_def Let_def addMessage_def sendMessage_called_def
          new_Container_def createInitialState_def)
  from clear_keeps_request [of test_runtime "js ''s2''" "js ''w1''" 2000 ?l]
    clear_while_loading [OF l(1), of test_runtime "js ''id2''" 2001 "js ''hi''" "js ''s2''"
      "js ''w1''" 2000]
    clear_state [of test_runtime "js ''s2''" "js ''w1''" 2000 ?l] l
  show ?thesis by (simp add: cleared_while_loading_def)
qed

end
